theory Spec2Isabelle
  imports Complex_Main "HOL-Library.AList" "HOL-Library.Log_Nat" "HOL-Library.Multiset"
begin

section \<open>Python floats\<close>

text \<open>
  The ratios, the range bounds and the percentages of the analyzer are Python floats
  (IEEE binary64). A finite float is modelled by the rational number it denotes; the
  two infinities and NaN are values of their own. The result of an arithmetic operation
  and the value of a decimal literal are rounded to 53 significant bits, to nearest,
  ties to even (\<open>rnd\<close>). The exponent range is not bounded: overflow to an infinity and
  gradual underflow are not modelled.
\<close>

datatype pyfloat = Fin rat | PInf | NInf | NaN

definition pow2 :: "int \<Rightarrow> rat" where
  "pow2 k = (if 0 \<le> k then 2 ^ nat k else 1 / 2 ^ nat (- k))"

text \<open>The exponent \<open>e\<close> with \<open>2 ^ e \<le> x < 2 ^ (e + 1)\<close>, for \<open>0 < x\<close>.\<close>

definition binade :: "rat \<Rightarrow> int" where
  "binade x = (if 1 \<le> x then bitlen \<lfloor>x\<rfloor> - 1 else - bitlen (\<lceil>1 / x\<rceil> - 1))"

definition round_half_even :: "rat \<Rightarrow> int" where
  "round_half_even y =
     (let f = \<lfloor>y\<rfloor>; d = y - of_int f
      in if d < 1 / 2 then f
         else if 1 / 2 < d then f + 1
         else if even f then f else f + 1)"

definition rnd :: "rat \<Rightarrow> rat" where
  "rnd x =
     (if x = 0 then 0
      else let s = pow2 (52 - binade \<bar>x\<bar>)
           in sgn x * of_int (round_half_even (\<bar>x\<bar> * s)) / s)"

text \<open>A decimal literal of the source, such as \<open>0.15\<close>.\<close>

definition lit :: "rat \<Rightarrow> pyfloat" where
  "lit x = Fin (rnd x)"

text \<open>\<open>a <= b\<close> and \<open>a < b\<close>: every comparison with NaN is false.\<close>

fun fle :: "pyfloat \<Rightarrow> pyfloat \<Rightarrow> bool" where
  "fle NaN b = False"
| "fle a NaN = False"
| "fle NInf b = True"
| "fle a PInf = True"
| "fle (Fin a) (Fin b) = (a \<le> b)"
| "fle (Fin a) NInf = False"
| "fle PInf b = False"

fun flt :: "pyfloat \<Rightarrow> pyfloat \<Rightarrow> bool" where
  "flt NaN b = False"
| "flt a NaN = False"
| "flt a NInf = False"
| "flt PInf b = False"
| "flt NInf b = True"
| "flt (Fin a) PInf = True"
| "flt (Fin a) (Fin b) = (a < b)"

text \<open>Truthiness of a number: only zero is false (NaN and the infinities are true).\<close>

definition truthy :: "pyfloat \<Rightarrow> bool" where
  "truthy v = (v \<noteq> Fin 0)"

fun fadd :: "pyfloat \<Rightarrow> pyfloat \<Rightarrow> pyfloat" where
  "fadd NaN b = NaN"
| "fadd a NaN = NaN"
| "fadd PInf NInf = NaN"
| "fadd NInf PInf = NaN"
| "fadd PInf b = PInf"
| "fadd NInf b = NInf"
| "fadd (Fin a) PInf = PInf"
| "fadd (Fin a) NInf = NInf"
| "fadd (Fin a) (Fin b) = Fin (rnd (a + b))"

fun fneg :: "pyfloat \<Rightarrow> pyfloat" where
  "fneg NaN = NaN"
| "fneg PInf = NInf"
| "fneg NInf = PInf"
| "fneg (Fin a) = Fin (- a)"

definition fsub :: "pyfloat \<Rightarrow> pyfloat \<Rightarrow> pyfloat" where
  "fsub a b = fadd a (fneg b)"

fun fmul :: "pyfloat \<Rightarrow> pyfloat \<Rightarrow> pyfloat" where
  "fmul NaN b = NaN"
| "fmul a NaN = NaN"
| "fmul (Fin a) (Fin b) = Fin (rnd (a * b))"
| "fmul (Fin a) PInf = (if a = 0 then NaN else if 0 < a then PInf else NInf)"
| "fmul (Fin a) NInf = (if a = 0 then NaN else if 0 < a then NInf else PInf)"
| "fmul PInf (Fin b) = (if b = 0 then NaN else if 0 < b then PInf else NInf)"
| "fmul NInf (Fin b) = (if b = 0 then NaN else if 0 < b then NInf else PInf)"
| "fmul PInf PInf = PInf"
| "fmul PInf NInf = NInf"
| "fmul NInf PInf = NInf"
| "fmul NInf NInf = PInf"

datatype py_error = ZeroDivisionError | KeyError

text \<open>\<open>a / b\<close> on floats; a zero divisor raises.\<close>

fun fdiv :: "pyfloat \<Rightarrow> pyfloat \<Rightarrow> py_error + pyfloat" where
  "fdiv a (Fin b) =
     (if b = 0 then Inl ZeroDivisionError
      else case a of
        Fin x \<Rightarrow> Inr (Fin (rnd (x / b)))
      | PInf \<Rightarrow> Inr (if 0 < b then PInf else NInf)
      | NInf \<Rightarrow> Inr (if 0 < b then NInf else PInf)
      | NaN \<Rightarrow> Inr NaN)"
| "fdiv a NaN = Inr NaN"
| "fdiv (Fin x) b = Inr (Fin 0)"
| "fdiv NaN b = Inr NaN"
| "fdiv a b = Inr NaN"

text \<open>\<open>a / b\<close> on ints: the correctly rounded quotient; a zero divisor raises.\<close>

definition truediv :: "nat \<Rightarrow> nat \<Rightarrow> py_error + pyfloat" where
  "truediv a b =
     (if b = 0 then Inl ZeroDivisionError else Inr (Fin (rnd (of_nat a / of_nat b))))"

section \<open>Criteria tables\<close>

datatype rating = Great | Good | No_buy

text \<open>
  One entry of a criteria table: the ratings in the order of the source's dictionary,
  each with its range \<open>(min_val, max_val)\<close>.
\<close>

type_synonym ratio_criteria = "(rating \<times> pyfloat \<times> pyfloat) list"
type_synonym criteria = "(string \<times> ratio_criteria) list"

definition VALUE_CRITERIA :: criteria where
  "VALUE_CRITERIA =
   [(''pe_ratio'', [(Great, Fin 0, Fin 15), (Good, Fin 15, Fin 25), (No_buy, Fin 25, PInf)]),
    (''pb_ratio'', [(Great, Fin 0, lit (15 / 10)), (Good, lit (15 / 10), Fin 3), (No_buy, Fin 3, PInf)]),
    (''ps_ratio'', [(Great, Fin 0, Fin 2), (Good, Fin 2, Fin 4), (No_buy, Fin 4, PInf)]),
    (''debt_to_equity'', [(Great, Fin 0, lit (5 / 10)), (Good, lit (5 / 10), lit (15 / 10)), (No_buy, lit (15 / 10), PInf)]),
    (''roe'', [(Great, lit (15 / 100), PInf), (Good, lit (1 / 10), lit (15 / 100)), (No_buy, Fin 0, lit (1 / 10))]),
    (''current_ratio'', [(Great, lit (15 / 10), Fin 3), (Good, Fin 1, lit (15 / 10)), (No_buy, Fin 0, Fin 1)]),
    (''dividend_yield'', [(Great, lit (3 / 100), PInf), (Good, lit (1 / 100), lit (3 / 100)), (No_buy, Fin 0, lit (1 / 100))]),
    (''profit_margin'', [(Great, lit (15 / 100), PInf), (Good, lit (8 / 100), lit (15 / 100)), (No_buy, Fin 0, lit (8 / 100))]),
    (''peg_ratio'', [(Great, Fin 0, Fin 1), (Good, Fin 1, Fin 2), (No_buy, Fin 2, PInf)])]"

definition GROWTH_MOMENTUM_CRITERIA :: criteria where
  "GROWTH_MOMENTUM_CRITERIA =
   [(''revenue_growth'', [(Great, lit (2 / 10), PInf), (Good, lit (1 / 10), lit (2 / 10)), (No_buy, Fin 0, lit (1 / 10))]),
    (''earnings_growth'', [(Great, lit (2 / 10), PInf), (Good, lit (1 / 10), lit (2 / 10)), (No_buy, Fin 0, lit (1 / 10))]),
    (''price_performance_6m'', [(Great, lit (15 / 100), PInf), (Good, lit (5 / 100), lit (15 / 100)), (No_buy, NInf, lit (5 / 100))]),
    (''price_performance_1y'', [(Great, lit (25 / 100), PInf), (Good, lit (1 / 10), lit (25 / 100)), (No_buy, NInf, lit (1 / 10))]),
    (''eps_growth'', [(Great, lit (15 / 100), PInf), (Good, lit (8 / 100), lit (15 / 100)), (No_buy, Fin 0, lit (8 / 100))]),
    (''gross_margin'', [(Great, lit (4 / 10), PInf), (Good, lit (25 / 100), lit (4 / 10)), (No_buy, Fin 0, lit (25 / 100))]),
    (''operating_margin'', [(Great, lit (2 / 10), PInf), (Good, lit (1 / 10), lit (2 / 10)), (No_buy, Fin 0, lit (1 / 10))]),
    (''relative_strength'', [(Great, lit (1 / 10), PInf), (Good, Fin 0, lit (1 / 10)), (No_buy, NInf, Fin 0)]),
    (''analyst_recommendation'', [(Great, Fin 1, lit (25 / 10)), (Good, lit (25 / 10), lit (35 / 10)), (No_buy, lit (35 / 10), Fin 5)]),
    (''pe_growth'', [(Great, lit (8 / 10), PInf), (Good, lit (5 / 10), lit (8 / 10)), (No_buy, Fin 0, lit (5 / 10))])]"

section \<open>classify_stock\<close>

text \<open>A ratios dictionary, in insertion order; a value may be \<open>None\<close>.\<close>

type_synonym ratios = "(string \<times> pyfloat option) list"
type_synonym rating_details = "(string \<times> rating) list"

text \<open>
  The inner loop \<open>for rating, (min_val, max_val) in ratio_criteria.items()\<close>: the
  first rating whose range holds the value, if any (\<open>break\<close>).
\<close>

fun rate :: "ratio_criteria \<Rightarrow> pyfloat \<Rightarrow> rating option" where
  "rate [] v = None"
| "rate ((rating, min_val, max_val) # rest) v =
     (if fle min_val v \<and> flt v max_val then Some rating else rate rest v)"

text \<open>
  The outer loop \<open>for ratio_name, ratio_value in ratios.items()\<close>, on the state
  \<open>(rating_counts, rating_details)\<close>.
\<close>

fun rate_ratios ::
  "criteria \<Rightarrow> ratios \<Rightarrow> (rating \<Rightarrow> nat) \<times> rating_details \<Rightarrow> (rating \<Rightarrow> nat) \<times> rating_details"
where
  "rate_ratios criteria [] st = st"
| "rate_ratios criteria ((ratio_name, ratio_value) # rest) (rating_counts, rating_details) =
     (case ratio_value of
        None \<Rightarrow> rate_ratios criteria rest (rating_counts, rating_details)
      | Some v \<Rightarrow>
          (case map_of criteria ratio_name of
             None \<Rightarrow> rate_ratios criteria rest (rating_counts, rating_details)
           | Some ratio_criteria \<Rightarrow>
               (case rate ratio_criteria v of
                  None \<Rightarrow> rate_ratios criteria rest (rating_counts, rating_details)
                | Some rating \<Rightarrow>
                    rate_ratios criteria rest
                      (rating_counts(rating := rating_counts rating + 1),
                       AList.update ratio_name rating rating_details))))"

definition total_rated_of :: "(rating \<Rightarrow> nat) \<Rightarrow> nat" where
  "total_rated_of rating_counts = rating_counts Great + rating_counts Good + rating_counts No_buy"

text \<open>The three divisions \<open>rating_counts[r] / total_rated\<close>.\<close>

definition percentages :: "(rating \<Rightarrow> nat) \<Rightarrow> py_error + (pyfloat \<times> pyfloat \<times> pyfloat)" where
  "percentages rating_counts =
     (let total_rated = total_rated_of rating_counts
      in case truediv (rating_counts Great) total_rated of
           Inl e \<Rightarrow> Inl e
         | Inr great_percent \<Rightarrow>
             (case truediv (rating_counts Good) total_rated of
                Inl e \<Rightarrow> Inl e
              | Inr good_percent \<Rightarrow>
                  (case truediv (rating_counts No_buy) total_rated of
                     Inl e \<Rightarrow> Inl e
                   | Inr no_buy_percent \<Rightarrow> Inr (great_percent, good_percent, no_buy_percent))))"

definition final_classification :: "string \<Rightarrow> pyfloat \<times> pyfloat \<times> pyfloat \<Rightarrow> string" where
  "final_classification analysis_type p =
     (case p of (great_percent, good_percent, no_buy_percent) \<Rightarrow>
        if analysis_type = ''value'' then
          if fle (lit (5 / 10)) great_percent \<and> fle no_buy_percent (lit (2 / 10))
          then ''GREAT BUY''
          else if fle (lit (6 / 10)) (fadd great_percent good_percent)
                  \<and> fle no_buy_percent (lit (3 / 10))
          then ''GOOD BUY''
          else ''NO BUY''
        else
          if fle (lit (4 / 10)) great_percent \<and> fle no_buy_percent (lit (3 / 10))
          then ''GREAT GROWTH OPPORTUNITY''
          else if fle (lit (5 / 10)) (fadd great_percent good_percent)
                  \<and> fle no_buy_percent (lit (4 / 10))
          then ''GOOD GROWTH OPPORTUNITY''
          else ''POOR GROWTH OPPORTUNITY'')"

text \<open>
  The criteria of an analysis type: \<open>self.value_criteria\<close> for \<open>'value'\<close>,
  \<open>self.growth_momentum_criteria\<close> for anything else.
\<close>

definition criteria_of :: "string \<Rightarrow> criteria" where
  "criteria_of analysis_type =
     (if analysis_type = ''value'' then VALUE_CRITERIA else GROWTH_MOMENTUM_CRITERIA)"

text \<open>
  \<open>classify_stock(ratios, analysis_type)\<close>; the argument is \<open>None\<close> for Python's
  \<open>None\<close>, and \<open>not ratios\<close> holds for \<open>None\<close> and for the empty dictionary.
\<close>

definition classify_stock ::
  "ratios option \<Rightarrow> string \<Rightarrow> py_error + (string \<times> rating_details)"
where
  "classify_stock ratios analysis_type =
     (case ratios of
        None \<Rightarrow> Inr (''Insufficient data for classification'', [])
      | Some rs \<Rightarrow>
          if rs = [] then Inr (''Insufficient data for classification'', [])
          else
            let criteria = criteria_of analysis_type
            in case rate_ratios criteria rs (\<lambda>r. 0, []) of
                 (rating_counts, rating_details) \<Rightarrow>
                   if total_rated_of rating_counts = 0
                   then Inr (''Insufficient data for classification'', rating_details)
                   else (case percentages rating_counts of
                           Inl e \<Rightarrow> Inl e
                         | Inr p \<Rightarrow>
                             Inr (final_classification analysis_type p, rating_details)))"

section \<open>calculate_ratios\<close>

text \<open>
  The stock data. The provider's \<open>info\<close> dictionary is kept in two parts: the numeric
  fields (a float or \<open>None\<close>) and the text fields. A price history frame is the list of
  its \<open>Close\<close> column, oldest row first; a financial statement is the list of its columns,
  most recent fiscal year first, each column mapping row labels to values.
\<close>

type_synonym prices = "pyfloat list"
type_synonym statement = "(string \<times> pyfloat) list list"

record stock_data =
  ticker :: string
  info :: "(string \<times> pyfloat option) list"
  info_text :: "(string \<times> string) list"
  income_stmt :: "statement option"
  balance_sheet :: "statement option"
  cash_flow :: "statement option"
  historical_data :: "prices option"
  market_data :: "prices option"
  current_price :: "pyfloat option"

text \<open>\<open>d.get(key, default)\<close>\<close>

definition get_or :: "(string \<times> 'a) list \<Rightarrow> string \<Rightarrow> 'a \<Rightarrow> 'a" where
  "get_or d key dflt = (case map_of d key of None \<Rightarrow> dflt | Some v \<Rightarrow> v)"

definition bind_err :: "'e + 'a \<Rightarrow> ('a \<Rightarrow> 'e + 'b) \<Rightarrow> 'e + 'b" where
  "bind_err m f = (case m of Inl e \<Rightarrow> Inl e | Inr x \<Rightarrow> f x)"

text \<open>\<open>a / b if b else None\<close>\<close>

definition div_if_truthy :: "pyfloat \<Rightarrow> pyfloat \<Rightarrow> py_error + pyfloat option" where
  "div_if_truthy a b =
     (if truthy b then bind_err (fdiv a b) (\<lambda>q. Inr (Some q)) else Inr None)"

text \<open>\<open>frame.empty\<close>: one of the two axes has length 0.\<close>

definition statement_empty :: "statement \<Rightarrow> bool" where
  "statement_empty f = (case f of [] \<Rightarrow> True | col # cols \<Rightarrow> col = [])"

text \<open>The nine ratios calculated for both analysis types, from an empty dictionary.\<close>

definition base_ratios :: "(string \<times> pyfloat option) list \<Rightarrow> py_error + ratios" where
  "base_ratios numeric_info =
     bind_err
       (case get_or numeric_info ''debtToEquity'' None of
          None \<Rightarrow> Inr None
        | Some d \<Rightarrow>
            if truthy d then bind_err (fdiv d (Fin 100)) (\<lambda>q. Inr (Some q)) else Inr None)
       (\<lambda>debt_to_equity. Inr
         [(''pe_ratio'', get_or numeric_info ''trailingPE'' (get_or numeric_info ''forwardPE'' None)),
          (''pb_ratio'', get_or numeric_info ''priceToBook'' None),
          (''ps_ratio'', get_or numeric_info ''priceToSalesTrailing12Months'' None),
          (''debt_to_equity'', debt_to_equity),
          (''roe'', get_or numeric_info ''returnOnEquity'' None),
          (''current_ratio'', get_or numeric_info ''currentRatio'' None),
          (''dividend_yield'', get_or numeric_info ''dividendYield'' (Some (Fin 0))),
          (''profit_margin'', get_or numeric_info ''profitMargins'' None),
          (''peg_ratio'', get_or numeric_info ''pegRatio'' None)])"

text \<open>\<open>(end_price - start_price) / start_price if start_price else None\<close>\<close>

definition price_change :: "pyfloat \<Rightarrow> pyfloat \<Rightarrow> py_error + pyfloat option" where
  "price_change start_price end_price = div_if_truthy (fsub end_price start_price) start_price"

text \<open>
  The price performance metrics, for a history frame that is not empty. In such a frame
  \<open>len(historical_data) > 0\<close> holds and \<open>iloc[-1]\<close> is the last row.
\<close>

definition price_ratios :: "prices \<Rightarrow> prices option \<Rightarrow> ratios \<Rightarrow> py_error + ratios" where
  "price_ratios h market ratios =
     (let six_month_ago_idx = length h - min (length h) 126
      in bind_err
           (if six_month_ago_idx < length h
            then bind_err (price_change (h ! six_month_ago_idx) (last h))
                   (\<lambda>p. Inr (AList.update ''price_performance_6m'' p ratios))
            else Inr ratios)
           (\<lambda>ratios.
              bind_err (if 0 < length h then price_change (hd h) (last h) else Inr None)
                (\<lambda>p1y.
                   let ratios = AList.update ''price_performance_1y'' p1y ratios
                   in case market of
                        None \<Rightarrow> Inr ratios
                      | Some m \<Rightarrow>
                          if m = [] then Inr ratios
                          else
                            let stock_return = get_or ratios ''price_performance_1y'' None
                            in bind_err
                                 (if 0 < length m then price_change (hd m) (last m)
                                  else Inr None)
                                 (\<lambda>market_return.
                                    case (stock_return, market_return) of
                                      (Some s, Some mr) \<Rightarrow>
                                        Inr (AList.update ''relative_strength''
                                               (Some (fsub s mr)) ratios)
                                    | _ \<Rightarrow> Inr ratios))))"

text \<open>The other growth metrics and the PE to Growth score.\<close>

definition growth_ratios :: "(string \<times> pyfloat option) list \<Rightarrow> ratios \<Rightarrow> py_error + ratios" where
  "growth_ratios numeric_info ratios =
     (let ratios = AList.update ''revenue_growth'' (get_or numeric_info ''revenueGrowth'' None) ratios;
          ratios = AList.update ''earnings_growth'' (get_or numeric_info ''earningsGrowth'' None) ratios;
          ratios = AList.update ''eps_growth'' (get_or numeric_info ''earningsQuarterlyGrowth'' None) ratios;
          ratios = AList.update ''gross_margin'' (get_or numeric_info ''grossMargins'' None) ratios;
          ratios = AList.update ''operating_margin'' (get_or numeric_info ''operatingMargins'' None) ratios;
          ratios = AList.update ''analyst_recommendation'' (get_or numeric_info ''recommendationMean'' None) ratios
      in case (get_or ratios ''pe_ratio'' None, get_or ratios ''earnings_growth'' None) of
           (Some pe, Some eg) \<Rightarrow>
             if flt (Fin 0) eg then
               bind_err (if flt (Fin 0) pe then fdiv eg pe else Inr (Fin 0))
                 (\<lambda>pe_growth_factor.
                    let x = fmul pe_growth_factor (Fin 10)
                    in Inr (AList.update ''pe_growth''
                              (Some (if flt x (lit (15 / 10)) then x else lit (15 / 10))) ratios))
             else Inr ratios
         | _ \<Rightarrow> Inr ratios)"

text \<open>The current ratio from the latest balance sheet, when \<open>info\<close> did not give it.\<close>

definition statement_ratios ::
  "statement option \<Rightarrow> statement option \<Rightarrow> ratios \<Rightarrow> py_error + ratios"
where
  "statement_ratios income balance ratios =
     (case (income, balance) of
        (Some inc, Some bal) \<Rightarrow>
          if statement_empty inc \<or> statement_empty bal then Inr ratios
          else
            let latest_year_balance = hd bal
            in if get_or ratios ''current_ratio'' None = None
                  \<and> ''TotalCurrentAssets'' \<in> set (map fst latest_year_balance)
                  \<and> ''TotalCurrentLiabilities'' \<in> set (map fst latest_year_balance)
               then
                 case (map_of latest_year_balance ''TotalCurrentAssets'',
                       map_of latest_year_balance ''TotalCurrentLiabilities'') of
                   (Some curr_assets, Some curr_liab) \<Rightarrow>
                     bind_err (div_if_truthy curr_assets curr_liab)
                       (\<lambda>q. Inr (AList.update ''current_ratio'' q ratios))
                 | _ \<Rightarrow> Inl KeyError
               else Inr ratios
      | _ \<Rightarrow> Inr ratios)"

text \<open>
  \<open>calculate_ratios(stock_data, analysis_type)\<close>: \<open>None\<close> when there is no stock data or
  its \<open>info\<close> is empty.
\<close>

definition calculate_ratios :: "stock_data option \<Rightarrow> string \<Rightarrow> py_error + ratios option" where
  "calculate_ratios stock_data analysis_type =
     (case stock_data of
        None \<Rightarrow> Inr None
      | Some sd \<Rightarrow>
          if info sd = [] \<and> info_text sd = [] then Inr None
          else
            bind_err (base_ratios (info sd))
              (\<lambda>ratios.
                 bind_err
                   (case historical_data sd of
                      None \<Rightarrow> Inr ratios
                    | Some h \<Rightarrow>
                        if analysis_type = ''growth_momentum'' then
                          bind_err (if h \<noteq> [] then price_ratios h (market_data sd) ratios
                                    else Inr ratios)
                            (growth_ratios (info sd))
                        else Inr ratios)
                   (\<lambda>ratios.
                      bind_err (statement_ratios (income_stmt sd) (balance_sheet sd) ratios)
                        (\<lambda>ratios. Inr (Some ratios)))))"

section \<open>Ratio descriptions and explanations\<close>

type_synonym descriptions = "(string \<times> (string \<times> string) list) list"

definition VALUE_DESCRIPTIONS :: descriptions where
  "VALUE_DESCRIPTIONS =
   [(''pe_ratio'',
      [(''name'', ''Price-to-Earnings Ratio''),
       (''description'', ''Compares a company's share price to its earnings per share.''),
       (''interpretation'', ''Lower is better for value stocks. A low P/E may indicate an undervalued stock, while a high P/E might suggest overvaluation or high growth expectations.''),
       (''value_stock_ideal'', ''Below 15 is excellent for value investing, suggesting potential undervaluation.'')]),
    (''pb_ratio'',
      [(''name'', ''Price-to-Book Ratio''),
       (''description'', ''Compares a company's market value to its book value.''),
       (''interpretation'', ''Lower is better for value stocks. A P/B ratio under 1.5 may indicate an undervalued stock relative to its assets.''),
       (''value_stock_ideal'', ''Below 1.5 is considered excellent for value investing.'')]),
    (''ps_ratio'',
      [(''name'', ''Price-to-Sales Ratio''),
       (''description'', ''Compares a company's market cap to its revenue.''),
       (''interpretation'', ''Lower is better. A low P/S ratio may indicate an undervalued stock based on its sales performance.''),
       (''value_stock_ideal'', ''Below 2 is excellent for value investing, particularly in established industries.'')]),
    (''debt_to_equity'',
      [(''name'', ''Debt-to-Equity Ratio''),
       (''description'', ''Measures a company's financial leverage by comparing total liabilities to shareholders' equity.''),
       (''interpretation'', ''Lower is generally better. High leverage can increase financial risk and volatility.''),
       (''value_stock_ideal'', ''Below 0.5 is excellent, indicating conservative financial management.'')]),
    (''roe'',
      [(''name'', ''Return on Equity''),
       (''description'', ''Measures how efficiently a company generates profit from its equity.''),
       (''interpretation'', ''Higher is better. Strong ROE indicates efficient use of shareholders' capital.''),
       (''value_stock_ideal'', ''Above 15% shows excellent profitability and efficiency.'')]),
    (''current_ratio'',
      [(''name'', ''Current Ratio''),
       (''description'', ''Measures a company's ability to pay short-term obligations.''),
       (''interpretation'', ''Higher is generally better. A ratio above 1.5 suggests good short-term financial health.''),
       (''value_stock_ideal'', ''Between 1.5 and 3.0 is ideal, showing good liquidity without excessive idle capital.'')]),
    (''dividend_yield'',
      [(''name'', ''Dividend Yield''),
       (''description'', ''Annual dividend payment relative to share price.''),
       (''interpretation'', ''Higher is generally better for income investors. Shows how much cash flow you're receiving per dollar invested.''),
       (''value_stock_ideal'', ''Above 3% is excellent for value and income investing.'')]),
    (''profit_margin'',
      [(''name'', ''Profit Margin''),
       (''description'', ''Percentage of revenue that translates into profit.''),
       (''interpretation'', ''Higher is better. Shows how efficiently a company converts sales into profits.''),
       (''value_stock_ideal'', ''Above 15% indicates strong profitability and competitive advantages.'')]),
    (''peg_ratio'',
      [(''name'', ''Price/Earnings to Growth Ratio''),
       (''description'', ''P/E ratio divided by earnings growth rate.''),
       (''interpretation'', ''Lower is better. Takes into account growth expectations to give context to the P/E ratio.''),
       (''value_stock_ideal'', ''Below 1.0 suggests the stock may be undervalued relative to its growth rate.'')])]"

definition GROWTH_MOMENTUM_DESCRIPTIONS :: descriptions where
  "GROWTH_MOMENTUM_DESCRIPTIONS =
   [(''revenue_growth'',
      [(''name'', ''Revenue Growth Rate''),
       (''description'', ''Year-over-year percentage increase in company revenue.''),
       (''interpretation'', ''Higher is better for growth stocks. Strong revenue growth indicates expanding business and market share.''),
       (''growth_stock_ideal'', ''Above 20% annually is excellent, showing rapid expansion.'')]),
    (''earnings_growth'',
      [(''name'', ''Earnings Growth Rate''),
       (''description'', ''Year-over-year percentage increase in earnings.''),
       (''interpretation'', ''Higher is better. Accelerating earnings growth is particularly positive.''),
       (''growth_stock_ideal'', ''Above 20% annually shows strong profit expansion.'')]),
    (''price_performance_6m'',
      [(''name'', ''6-Month Price Performance''),
       (''description'', ''Percentage change in stock price over the last 6 months.''),
       (''interpretation'', ''Higher is better for momentum stocks. Positive price momentum often continues in the short term.''),
       (''growth_stock_ideal'', ''Above 15% in 6 months indicates strong upward momentum.'')]),
    (''price_performance_1y'',
      [(''name'', ''1-Year Price Performance''),
       (''description'', ''Percentage change in stock price over the last year.''),
       (''interpretation'', ''Higher is better for momentum strategies. Extended price strength often signals market confidence.''),
       (''growth_stock_ideal'', ''Above 25% annually shows sustained price strength.'')]),
    (''eps_growth'',
      [(''name'', ''EPS Growth Rate''),
       (''description'', ''Year-over-year percentage increase in earnings per share.''),
       (''interpretation'', ''Higher is better. Consistent EPS growth is a key factor for growth investors.''),
       (''growth_stock_ideal'', ''Above 15% annually indicates strong per-share profit growth.'')]),
    (''gross_margin'',
      [(''name'', ''Gross Margin''),
       (''description'', ''Gross profit divided by revenue.''),
       (''interpretation'', ''Higher is better. High margins often indicate competitive advantages and pricing power.''),
       (''growth_stock_ideal'', ''Above 40% suggests strong product margins and pricing power.'')]),
    (''operating_margin'',
      [(''name'', ''Operating Margin''),
       (''description'', ''Operating income divided by revenue.''),
       (''interpretation'', ''Higher is better. Improving operating margins suggest operational efficiency.''),
       (''growth_stock_ideal'', ''Above 20% indicates efficient operations and scalable business model.'')]),
    (''relative_strength'',
      [(''name'', ''Relative Strength''),
       (''description'', ''Stock's performance compared to a benchmark (like S&P 500).''),
       (''interpretation'', ''Higher is better for momentum stocks. Outperformance vs. the market is a positive signal.''),
       (''growth_stock_ideal'', ''Outperforming the market by 10% or more is excellent.'')]),
    (''analyst_recommendation'',
      [(''name'', ''Analyst Recommendation''),
       (''description'', ''Average rating from analysts (1=Strong Buy, 5=Strong Sell).''),
       (''interpretation'', ''Lower is better. Strong buy ratings may indicate positive future prospects.''),
       (''growth_stock_ideal'', ''Below 2.5 (between Buy and Strong Buy) suggests analyst confidence.'')]),
    (''pe_growth'',
      [(''name'', ''P/E to Growth Score''),
       (''description'', ''Custom score balancing P/E with growth (higher growth justifying higher P/E).''),
       (''interpretation'', ''Higher is better for growth stocks. This metric rewards high growth even with elevated P/E ratios.''),
       (''growth_stock_ideal'', ''Above 0.8 suggests good balance of growth and valuation.'')])]"

text \<open>\<open>d[key]\<close>: a missing key raises.\<close>

definition lookup :: "('k \<times> 'v) list \<Rightarrow> 'k \<Rightarrow> py_error + 'v" where
  "lookup d key = (case map_of d key of None \<Rightarrow> Inl KeyError | Some v \<Rightarrow> Inr v)"

text \<open>\<open>s.split('.')[0]\<close> and \<open>s.replace('_', '/')\<close>\<close>

definition first_sentence :: "string \<Rightarrow> string" where
  "first_sentence s = takeWhile (\<lambda>c. c \<noteq> CHR ''.'') s"

definition slashed :: "string \<Rightarrow> string" where
  "slashed s = map (\<lambda>c. if c = CHR ''_'' then CHR ''/'' else c) s"

text \<open>
  The text of a float is not modelled: the format \<open>:.2f\<close> and the default format of an
  f-string are parameters.
\<close>

record formatting =
  fmt2f :: "pyfloat \<Rightarrow> string"
  fstr :: "pyfloat \<Rightarrow> string"

text \<open>
  \<open>{criteria['great'][0]:.2f}-{criteria['great'][1] if criteria['great'][1] != float('inf')
  else 'inf'}\<close>
\<close>

definition ideal_range :: "formatting \<Rightarrow> ratio_criteria \<Rightarrow> py_error + string" where
  "ideal_range fmt ratio_criteria =
     bind_err (lookup ratio_criteria Great)
       (\<lambda>(lo, hi). Inr (fmt2f fmt lo @ ''-'' @ (if hi \<noteq> PInf then fstr fmt hi else ''inf'')))"

definition get_ratio_explanation ::
  "formatting \<Rightarrow> string \<Rightarrow> pyfloat option \<Rightarrow> rating \<Rightarrow> string \<Rightarrow> py_error + string"
where
  "get_ratio_explanation fmt ratio_name ratio_value rating atype =
     (let descriptions = (if atype = ''value'' then VALUE_DESCRIPTIONS
                          else GROWTH_MOMENTUM_DESCRIPTIONS);
          ideal_key = (if atype = ''value'' then ''value_stock_ideal''
                       else ''growth_stock_ideal'')
      in case (map_of descriptions ratio_name, ratio_value) of
           (Some ratio_info, Some v) \<Rightarrow>
             bind_err
               (if atype = ''value''
                then bind_err (lookup VALUE_CRITERIA ratio_name) (\<lambda>c. Inr (Some c))
                else Inr (map_of GROWTH_MOMENTUM_CRITERIA ratio_name))
               (\<lambda>found.
                  case found of
                    None \<Rightarrow> Inr ''This metric is not applicable for growth/momentum analysis.''
                  | Some ratio_criteria \<Rightarrow>
                      bind_err (lookup ratio_info ''name'')
                        (\<lambda>name.
                           let explanation = name @ '' ('' @ fmt2f fmt v @ ''): ''
                           in bind_err (lookup ratio_info ''interpretation'')
                                (\<lambda>interpretation.
                                   case rating of
                                     Great \<Rightarrow>
                                       Inr (explanation
                                            @ ''EXCELLENT. '' @ first_sentence interpretation @ ''. ''
                                            @ ''For '' @ slashed atype @ '' stocks, ''
                                            @ get_or ratio_info ideal_key [])
                                   | Good \<Rightarrow>
                                       bind_err (ideal_range fmt ratio_criteria)
                                         (\<lambda>range.
                                            Inr (explanation
                                                 @ ''GOOD. '' @ first_sentence interpretation @ ''. ''
                                                 @ ''While not in the ideal range ('' @ range @ ''), ''
                                                 @ ''it's still acceptable for '' @ slashed atype
                                                 @ '' investing.''))
                                   | No_buy \<Rightarrow>
                                       bind_err (ideal_range fmt ratio_criteria)
                                         (\<lambda>range.
                                            Inr (explanation
                                                 @ ''CONCERNING. '' @ first_sentence interpretation @ ''. ''
                                                 @ ''For '' @ slashed atype
                                                 @ '' stocks, this is outside the preferred range. ''
                                                 @ ''Ideal would be '' @ range @ ''.'')))))
         | _ \<Rightarrow> Inr ''Insufficient data available.'')"

section \<open>Reports\<close>

record StockReport =
  ticker :: string
  company_name :: string
  current_price :: "pyfloat option"
  currency :: string
  timestamp :: string
  classification :: string
  ratios :: ratios
  rating_details :: rating_details
  ratio_explanations :: "(string \<times> string) list"
  analysis_type :: string

definition great_count :: "StockReport \<Rightarrow> nat" where
  "great_count report = count_list (map snd (rating_details report)) Great"

definition good_count :: "StockReport \<Rightarrow> nat" where
  "good_count report = count_list (map snd (rating_details report)) Good"

definition no_buy_count :: "StockReport \<Rightarrow> nat" where
  "no_buy_count report = count_list (map snd (rating_details report)) No_buy"

definition total_rated :: "StockReport \<Rightarrow> nat" where
  "total_rated report = length (rating_details report)"

definition strength_percentage :: "StockReport \<Rightarrow> py_error + pyfloat" where
  "strength_percentage report =
     (if total_rated report = 0 then Inr (Fin 0)
      else bind_err (truediv (great_count report + good_count report) (total_rated report))
             (\<lambda>q. Inr (fmul q (Fin 100))))"

section \<open>generate_report\<close>

text \<open>
  The loop \<open>for ratio_name, rating in rating_details.items()\<close> that fills
  \<open>ratio_explanations\<close>.
\<close>

fun explain_ratios ::
  "formatting \<Rightarrow> ratios \<Rightarrow> string \<Rightarrow> rating_details \<Rightarrow> (string \<times> string) list
   \<Rightarrow> py_error + (string \<times> string) list"
where
  "explain_ratios fmt rs atype [] explanations = Inr explanations"
| "explain_ratios fmt rs atype ((ratio_name, rating) # rest) explanations =
     (case map_of rs ratio_name of
        Some (Some v) \<Rightarrow>
          bind_err (get_ratio_explanation fmt ratio_name (Some v) rating atype)
            (\<lambda>e. explain_ratios fmt rs atype rest (AList.update ratio_name e explanations))
      | _ \<Rightarrow> explain_ratios fmt rs atype rest explanations)"

text \<open>
  \<open>generate_report(ticker, analysis_type)\<close>. The data provider (\<open>fetch_stock_data\<close>), the
  clock and the number formats are parameters. The result is \<open>Inl\<close> of the error string
  or \<open>Inr\<close> of the report. The attributes \<open>classification_criteria\<close> and
  \<open>ratio_descriptions\<close> that the method sets are read by none of the functions here.
\<close>

definition generate_report ::
  "(string \<Rightarrow> stock_data option) \<Rightarrow> formatting \<Rightarrow> string \<Rightarrow> string \<Rightarrow> string
   \<Rightarrow> py_error + (string + StockReport)"
where
  "generate_report fetch_stock_data fmt now tkr atype =
     (case fetch_stock_data tkr of
        None \<Rightarrow> Inr (Inl (''Could not retrieve data for '' @ tkr))
      | Some sd \<Rightarrow>
          bind_err (calculate_ratios (Some sd) atype)
            (\<lambda>calculated.
               case calculated of
                 None \<Rightarrow> Inr (Inl (''Could not calculate ratios for '' @ tkr))
               | Some rs \<Rightarrow>
                   if rs = [] then Inr (Inl (''Could not calculate ratios for '' @ tkr))
                   else
                     bind_err (classify_stock (Some rs) atype)
                       (\<lambda>(label, details).
                          bind_err (explain_ratios fmt rs atype details [])
                            (\<lambda>explanations. Inr (Inr
                               \<lparr>ticker = tkr,
                                company_name = get_or (info_text sd) ''longName'' tkr,
                                current_price = stock_data.current_price sd,
                                currency = get_or (info_text sd) ''currency'' ''USD'',
                                timestamp = now,
                                classification = label,
                                ratios = rs,
                                rating_details = details,
                                ratio_explanations = explanations,
                                analysis_type = atype\<rparr>)))))"

section \<open>Auxiliary definitions\<close>

text \<open>The ratings that the loop of \<open>classify_stock\<close> gives, in the order of the ratios.\<close>

fun ratings_of :: "criteria \<Rightarrow> ratios \<Rightarrow> rating_details" where
  "ratings_of c [] = []"
| "ratings_of c ((ratio_name, ratio_value) # rest) =
     (case ratio_value of
        None \<Rightarrow> ratings_of c rest
      | Some v \<Rightarrow>
          (case map_of c ratio_name of
             None \<Rightarrow> ratings_of c rest
           | Some rc \<Rightarrow>
               (case rate rc v of
                  None \<Rightarrow> ratings_of c rest
                | Some r \<Rightarrow> (ratio_name, r) # ratings_of c rest)))"

text \<open>A value lies in the range of a criteria entry: \<open>min_val <= value < max_val\<close>.\<close>

definition in_range :: "pyfloat \<Rightarrow> rating \<times> pyfloat \<times> pyfloat \<Rightarrow> bool" where
  "in_range v e = (case e of (r, lo, hi) \<Rightarrow> fle lo v \<and> flt v hi)"

text \<open>A check that the ranges of an entry lie apart: each ends where or before another begins.\<close>

fun ranges_apart :: "ratio_criteria \<Rightarrow> bool" where
  "ranges_apart [] = True"
| "ranges_apart ((r, lo, hi) # rest) =
     (list_all (\<lambda>(r', lo', hi'). fle hi lo' \<or> fle hi' lo) rest \<and> ranges_apart rest)"

text \<open>A ratios argument is a dictionary: its keys are distinct.\<close>

definition wf_ratios :: "ratios option \<Rightarrow> bool" where
  "wf_ratios rs = (case rs of None \<Rightarrow> True | Some d \<Rightarrow> distinct (map fst d))"

text \<open>The restriction of a ratios dictionary to the keys of a criteria table.\<close>

definition restrict_ratios :: "criteria \<Rightarrow> ratios option \<Rightarrow> ratios option" where
  "restrict_ratios c rs = map_option (filter (\<lambda>(k, v). k \<in> set (map fst c))) rs"

text \<open>Every criteria entry has a description with the fields that an explanation reads.\<close>

definition described :: "criteria \<Rightarrow> descriptions \<Rightarrow> bool" where
  "described c d =
     list_all (\<lambda>(ratio_name, rc).
        case map_of d ratio_name of
          None \<Rightarrow> False
        | Some ratio_info \<Rightarrow>
            map_of ratio_info ''name'' \<noteq> None \<and> map_of ratio_info ''interpretation'' \<noteq> None
            \<and> map_of rc Great \<noteq> None) c"

text \<open>The names of the ratios that \<open>calculate_ratios\<close> sets, in the order of the source.\<close>

definition base_keys :: "string list" where
  "base_keys = [''pe_ratio'', ''pb_ratio'', ''ps_ratio'', ''debt_to_equity'', ''roe'',
     ''current_ratio'', ''dividend_yield'', ''profit_margin'', ''peg_ratio'']"

definition growth_keys :: "string list" where
  "growth_keys = [''revenue_growth'', ''earnings_growth'', ''eps_growth'', ''gross_margin'',
     ''operating_margin'', ''analyst_recommendation'']"

section \<open>The criteria tables\<close>

lemma value_apart: "list_all (\<lambda>(n, rc). ranges_apart rc) VALUE_CRITERIA"
  by code_simp
lemma growth_apart: "list_all (\<lambda>(n, rc). ranges_apart rc) GROWTH_MOMENTUM_CRITERIA"
  by code_simp

lemma apart_step: "fle lo1 v \<Longrightarrow> flt v hi1 \<Longrightarrow> fle lo2 v \<Longrightarrow> flt v hi2 \<Longrightarrow> fle hi1 lo2 \<or> fle hi2 lo1 \<Longrightarrow> False"
  by (cases lo1; cases v; cases hi1; cases lo2; cases hi2) auto

lemma rate_ratios_eq:
  "rate_ratios c rs (cnt, det) =
     (\<lambda>r. cnt r + count_list (map snd (ratings_of c rs)) r,
      fold (\<lambda>(k, r). AList.update k r) (ratings_of c rs) det)"
  by (induction rs arbitrary: cnt det) (auto split: option.splits simp: fun_eq_iff)

section \<open>The rating loop\<close>

lemma update_fresh: "k \<notin> fst ` set al \<Longrightarrow> AList.update k v al = al @ [(k, v)]"
  by (induction al) auto

lemma fold_update_append:
  "distinct (map fst xs) \<Longrightarrow> fst ` set xs \<inter> fst ` set det = {} \<Longrightarrow>
   fold (\<lambda>(k, r). AList.update k r) xs det = det @ xs"
proof (induction xs arbitrary: det)
  case Nil
  then show ?case by simp
next
  case (Cons x xs)
  obtain k r where x: "x = (k, r)" by (cases x)
  from Cons.prems have fresh: "k \<notin> fst ` set det" by (auto simp: x)
  have "fst ` set xs \<inter> fst ` set (det @ [(k, r)]) = {}"
    using Cons.prems by (auto simp: x)
  with Cons.IH [of "det @ [(k, r)]"] Cons.prems show ?case
    by (simp add: x update_fresh [OF fresh])
qed

lemma fold_update_Nil_iff:
  "fold (\<lambda>(k, r). AList.update k r) xs det = [] \<longleftrightarrow> xs = [] \<and> det = []"
proof (induction xs arbitrary: det)
  case Nil
  then show ?case by simp
next
  case (Cons x xs)
  obtain k r where x: "x = (k, r)" by (cases x)
  have "AList.update k r det \<noteq> []" by (cases det) auto
  with Cons.IH [of "AList.update k r det"] show ?case by (simp add: x)
qed

lemma ratings_of_key: "(k, r) \<in> set (ratings_of c rs) \<Longrightarrow> k \<in> fst ` set rs"
  by (induction rs) (auto split: option.splits if_splits)

lemma ratings_of_keys: "fst ` set (ratings_of c rs) \<subseteq> fst ` set rs"
  using ratings_of_key by fastforce

lemma ratings_of_distinct: "distinct (map fst rs) \<Longrightarrow> distinct (map fst (ratings_of c rs))"
proof (induction c rs rule: ratings_of.induct)
  case (1 c)
  then show ?case by simp
next
  case (2 c ratio_name ratio_value rest)
  have "ratio_name \<notin> fst ` set (ratings_of c rest)"
    using ratings_of_keys [of c rest] "2.prems" by auto
  with 2 show ?case by (auto split: option.splits)
qed

lemma rate_ratios_details:
  "distinct (map fst rs) \<Longrightarrow> snd (rate_ratios c rs (\<lambda>r. 0, [])) = ratings_of c rs"
  by (simp add: rate_ratios_eq fold_update_append ratings_of_distinct)

lemma count_rating_sum:
  "count_list xs Great + count_list xs Good + count_list xs No_buy = length xs"
proof (induction xs)
  case Nil
  then show ?case by simp
next
  case (Cons x xs)
  then show ?case by (cases x) auto
qed

lemma rate_ratios_total:
  "total_rated_of (fst (rate_ratios c rs (\<lambda>r. 0, []))) = length (ratings_of c rs)"
  using count_rating_sum [of "map snd (ratings_of c rs)"]
  by (simp add: rate_ratios_eq total_rated_of_def)

lemma rate_ratios_Nil_iff:
  "snd (rate_ratios c rs (\<lambda>r. 0, [])) = [] \<longleftrightarrow> ratings_of c rs = []"
  by (simp add: rate_ratios_eq fold_update_Nil_iff)


lemma percentages_Inr:
  "total_rated_of cnt \<noteq> 0 \<Longrightarrow>
   percentages cnt =
     Inr (Fin (rnd (of_nat (cnt Great) / of_nat (total_rated_of cnt))),
          Fin (rnd (of_nat (cnt Good) / of_nat (total_rated_of cnt))),
          Fin (rnd (of_nat (cnt No_buy) / of_nat (total_rated_of cnt))))"
  by (simp add: percentages_def truediv_def Let_def)

lemma percentages_zero:
  "total_rated_of cnt = 0 \<Longrightarrow> percentages cnt = Inl ZeroDivisionError"
  by (simp add: percentages_def truediv_def Let_def)

text \<open>\<open>classify_stock\<close> on a dictionary, in closed form.\<close>

lemma classify_stock_Some:
  "classify_stock (Some rs) t =
     (if ratings_of (criteria_of t) rs = []
      then Inr (''Insufficient data for classification'', [])
      else Inr (final_classification t
                  (Fin (rnd (of_nat (count_list (map snd (ratings_of (criteria_of t) rs)) Great) / of_nat (length (ratings_of (criteria_of t) rs)))),
                   Fin (rnd (of_nat (count_list (map snd (ratings_of (criteria_of t) rs)) Good) / of_nat (length (ratings_of (criteria_of t) rs)))),
                   Fin (rnd (of_nat (count_list (map snd (ratings_of (criteria_of t) rs)) No_buy) / of_nat (length (ratings_of (criteria_of t) rs))))),
                snd (rate_ratios (criteria_of t) rs (\<lambda>r. 0, []))))"
proof -
  obtain cnt det where rr: "rate_ratios (criteria_of t) rs (\<lambda>r. 0, []) = (cnt, det)"
    by (cases "rate_ratios (criteria_of t) rs (\<lambda>r. 0, [])")
  have tot: "total_rated_of cnt = length (ratings_of (criteria_of t) rs)"
    using rate_ratios_total [of "criteria_of t" rs] by (simp add: rr)
  have cnt: "cnt = (\<lambda>r. count_list (map snd (ratings_of (criteria_of t) rs)) r)"
    using rr by (simp add: rate_ratios_eq)
  have det: "det = [] \<longleftrightarrow> ratings_of (criteria_of t) rs = []"
    using rate_ratios_Nil_iff [of "criteria_of t" rs] by (simp add: rr)
  show ?thesis
  proof (cases "ratings_of (criteria_of t) rs = []")
    case True
    then show ?thesis using tot det
      by (simp add: classify_stock_def rr Let_def)
  next
    case False
    then have "rs \<noteq> []" by auto
    moreover have "total_rated_of cnt \<noteq> 0" using False tot by simp
    ultimately show ?thesis using False tot
      by (simp add: classify_stock_def rr Let_def percentages_Inr) (simp add: cnt)
  qed
qed

section \<open>Ranges that lie apart\<close>

lemma rate_SomeD: "rate rc v = Some r \<Longrightarrow> \<exists>lo hi. (r, lo, hi) \<in> set rc \<and> fle lo v \<and> flt v hi"
  by (induction rc v rule: rate.induct) (auto split: if_splits)

lemma rate_None_iff: "rate rc v = None \<longleftrightarrow> (\<forall>e \<in> set rc. \<not> in_range v e)"
  by (induction rc v rule: rate.induct) (auto simp: in_range_def)

lemma apart_unique:
  "ranges_apart rc \<Longrightarrow> e1 \<in> set rc \<Longrightarrow> e2 \<in> set rc \<Longrightarrow> in_range v e1 \<Longrightarrow> in_range v e2 \<Longrightarrow> e1 = e2"
proof (induction rc rule: ranges_apart.induct)
  case 1
  then show ?case by simp
next
  case (2 r lo hi rest)
  have clash: False
    if "e \<in> set rest" "in_range v e" "in_range v (r, lo, hi)" for e
  proof -
    obtain r' lo' hi' where e: "e = (r', lo', hi')" by (cases e)
    from "2.prems"(1) that(1) have "fle hi lo' \<or> fle hi' lo"
      by (auto simp: list_all_iff e)
    with that(2,3) show False
      using apart_step [of lo v hi lo' hi'] by (auto simp: in_range_def e)
  qed
  from "2.prems" consider "e1 = (r, lo, hi)" "e2 = (r, lo, hi)"
    | "e1 = (r, lo, hi)" "e2 \<in> set rest" | "e1 \<in> set rest" "e2 = (r, lo, hi)"
    | "e1 \<in> set rest" "e2 \<in> set rest" by auto
  then show ?case
  proof cases
    case 1
    then show ?thesis by simp
  next
    case 2
    with clash [of e2] "2.prems" show ?thesis by simp
  next
    case 3
    with clash [of e1] "2.prems" show ?thesis by simp
  next
    case 4
    with 2 show ?thesis by simp
  qed
qed


lemma rate_set_eq:
  assumes "ranges_apart rc" "set rc' = set rc"
  shows "rate rc' v = rate rc v"
proof (cases "rate rc v")
  case None
  then have "rate rc' v = None" using assms(2) by (simp add: rate_None_iff)
  with None show ?thesis by simp
next
  case (Some r)
  from rate_SomeD [OF this] obtain lo hi
    where e: "(r, lo, hi) \<in> set rc" "in_range v (r, lo, hi)"
    by (auto simp: in_range_def)
  with assms(2) have "rate rc' v \<noteq> None" by (auto simp: rate_None_iff)
  then obtain r' where r': "rate rc' v = Some r'" by auto
  from rate_SomeD [OF this] assms(2) obtain lo' hi'
    where e': "(r', lo', hi') \<in> set rc" "in_range v (r', lo', hi')"
    by (auto simp: in_range_def)
  from apart_unique [OF assms(1) e(1) e'(1) e(2) e'(2)] r' Some show ?thesis by simp
qed

lemma criteria_apart:
  assumes "(name, rc) \<in> set VALUE_CRITERIA \<union> set GROWTH_MOMENTUM_CRITERIA"
  shows "ranges_apart rc"
  using assms value_apart growth_apart by (auto simp: list_all_iff)


lemma classify_stock_total: "\<exists>label details. classify_stock ro t = Inr (label, details)"
proof (cases ro)
  case None
  then show ?thesis by (simp add: classify_stock_def)
next
  case (Some rs)
  then show ?thesis by (simp add: classify_stock_Some)
qed

section \<open>Disjoint ranges\<close>

lemma criteria_ratings:
  assumes "(name, rc) \<in> set VALUE_CRITERIA \<union> set GROWTH_MOMENTUM_CRITERIA"
  shows "map fst rc = [Great, Good, No_buy]"
proof -
  have "list_all (\<lambda>(n, rc). map fst rc = [Great, Good, No_buy]) VALUE_CRITERIA"
    by code_simp
  moreover have "list_all (\<lambda>(n, rc). map fst rc = [Great, Good, No_buy]) GROWTH_MOMENTUM_CRITERIA"
    by code_simp
  ultimately show ?thesis using assms by (auto simp: list_all_iff)
qed

text \<open>
  C8: in both criteria tables every ratio has the three ratings, and their ranges are
  pairwise disjoint: no value lies in the ranges of two entries. So the first match of
  the loop in \<open>classify_stock\<close> is the only match, and checking the ratings of a ratio in
  any other order gives the same rating.
\<close>

theorem criteria_ranges_disjoint:
  assumes "(name, rc) \<in> set VALUE_CRITERIA \<union> set GROWTH_MOMENTUM_CRITERIA"
  shows "map fst rc = [Great, Good, No_buy]
    \<and> (\<forall>e1 \<in> set rc. \<forall>e2 \<in> set rc. e1 \<noteq> e2 \<longrightarrow> \<not> (in_range v e1 \<and> in_range v e2))
    \<and> (\<forall>rc'. mset rc' = mset rc \<longrightarrow> rate rc' v = rate rc v)"
proof -
  have apart: "ranges_apart rc" using assms by (rule criteria_apart)
  have "rate rc' v = rate rc v" if "mset rc' = mset rc" for rc'
  proof -
    from that have "set rc' = set rc" by (metis set_mset_mset)
    with apart show ?thesis by (rule rate_set_eq)
  qed
  moreover have "e1 = e2"
    if "e1 \<in> set rc" "e2 \<in> set rc" "in_range v e1" "in_range v e2" for e1 e2
    using apart that by (rule apart_unique)
  ultimately show ?thesis using criteria_ratings [OF assms] by blast
qed

theorem criteria_ranges_disjoint_witness:
  "(''pe_ratio'', [(Great, Fin 0, Fin 15), (Good, Fin 15, Fin 25), (No_buy, Fin 25, PInf)])
      \<in> set VALUE_CRITERIA \<union> set GROWTH_MOMENTUM_CRITERIA
   \<and> \<not> (in_range (Fin 20) (Great, Fin 0, Fin 15) \<and> in_range (Fin 20) (Good, Fin 15, Fin 25))
   \<and> mset [(No_buy, Fin 25, PInf), (Good, Fin 15, Fin 25), (Great, Fin 0, Fin 15)]
       = mset [(Great, Fin 0, Fin 15), (Good, Fin 15, Fin 25), (No_buy, Fin 25, PInf)]
   \<and> rate [(No_buy, Fin 25, PInf), (Good, Fin 15, Fin 25), (Great, Fin 0, Fin 15)] (Fin 20)
       = rate [(Great, Fin 0, Fin 15), (Good, Fin 15, Fin 25), (No_buy, Fin 25, PInf)] (Fin 20)"
proof -
  have mem: "(''pe_ratio'', [(Great, Fin 0, Fin 15), (Good, Fin 15, Fin 25), (No_buy, Fin 25, PInf)])
      \<in> set VALUE_CRITERIA \<union> set GROWTH_MOMENTUM_CRITERIA"
    by (simp add: VALUE_CRITERIA_def)
  have perm: "mset [(No_buy, Fin 25, PInf), (Good, Fin 15, Fin 25), (Great, Fin 0, Fin 15)]
       = mset [(Great, Fin 0, Fin 15), (Good, Fin 15, Fin 25), (No_buy, Fin 25, PInf)]"
    by simp
  show ?thesis
    using mem perm criteria_ranges_disjoint [OF mem, of "Fin 20"] by (simp add: in_range_def)
qed

section \<open>Ratings and labels\<close>




lemma final_classification_labels:
  "final_classification t p \<in>
     (if t = ''value'' then {''GREAT BUY'', ''GOOD BUY'', ''NO BUY''}
      else {''GREAT GROWTH OPPORTUNITY'', ''GOOD GROWTH OPPORTUNITY'', ''POOR GROWTH OPPORTUNITY''})"
  by (cases p) (simp add: final_classification_def)

lemma final_classification_sufficient:
  "final_classification t p \<noteq> ''Insufficient data for classification''"
  by (cases p) (simp add: final_classification_def)

text \<open>
  C2: \<open>classify_stock\<close> returns a pair whose label is one of the three labels of the
  analysis type or \<open>'Insufficient data for classification'\<close>, and it is the latter exactly
  when no ratio received a rating; so it is for \<open>None\<close> and for the empty dictionary.
\<close>

theorem classify_stock_labels:
  "\<exists>label details. classify_stock ro t = Inr (label, details)
    \<and> (label = ''Insufficient data for classification'') = (details = [])
    \<and> label \<in>
         (if t = ''value''
          then {''GREAT BUY'', ''GOOD BUY'', ''NO BUY'', ''Insufficient data for classification''}
          else {''GREAT GROWTH OPPORTUNITY'', ''GOOD GROWTH OPPORTUNITY'',
                ''POOR GROWTH OPPORTUNITY'', ''Insufficient data for classification''})
    \<and> classify_stock None t = Inr (''Insufficient data for classification'', [])
    \<and> classify_stock (Some []) t = Inr (''Insufficient data for classification'', [])"
proof (cases ro)
  case None
  then show ?thesis by (simp add: classify_stock_def)
next
  case (Some rs)
  show ?thesis
  proof (cases "ratings_of (criteria_of t) rs = []")
    case True
    then show ?thesis using Some by (simp add: classify_stock_Some) (simp add: classify_stock_def)
  next
    case False
    then have det: "snd (rate_ratios (criteria_of t) rs (\<lambda>r. 0, [])) \<noteq> []"
      by (simp add: rate_ratios_Nil_iff)
    from False obtain p where c: "classify_stock (Some rs) t
        = Inr (final_classification t p, snd (rate_ratios (criteria_of t) rs (\<lambda>r. 0, [])))"
      by (simp add: classify_stock_Some)
    have "final_classification t p \<in>
         (if t = ''value''
          then {''GREAT BUY'', ''GOOD BUY'', ''NO BUY'', ''Insufficient data for classification''}
          else {''GREAT GROWTH OPPORTUNITY'', ''GOOD GROWTH OPPORTUNITY'',
                ''POOR GROWTH OPPORTUNITY'', ''Insufficient data for classification''})"
      using final_classification_labels [of t p] by (auto split: if_splits)
    moreover have "classify_stock None t = Inr (''Insufficient data for classification'', [])"
      "classify_stock (Some []) t = Inr (''Insufficient data for classification'', [])"
      by (simp_all add: classify_stock_def)
    ultimately show ?thesis
      using Some c det final_classification_sufficient [of t p] by simp
  qed
qed

theorem classify_stock_labels_witness:
  "classify_stock (Some [(''pe_ratio'', Some (Fin 10)), (''x'', None)]) ''value''
     = Inr (''GREAT BUY'', [(''pe_ratio'', Great)])
   \<and> (''GREAT BUY'' = ''Insufficient data for classification'') = ([(''pe_ratio'', Great)] = [])
   \<and> ''GREAT BUY'' \<in> {''GREAT BUY'', ''GOOD BUY'', ''NO BUY'', ''Insufficient data for classification''}"
proof -
  have "classify_stock (Some [(''pe_ratio'', Some (Fin 10)), (''x'', None)]) ''value''
     = Inr (''GREAT BUY'', [(''pe_ratio'', Great)])"
    by code_simp
  then show ?thesis
    using classify_stock_labels [of "Some [(''pe_ratio'', Some (Fin 10)), (''x'', None)]" "''value''"]
    by simp
qed

section \<open>Counts and independence\<close>

lemma classify_stock_by_details:
  assumes "wf_ratios ro" and "classify_stock ro t = Inr (label, details)"
  shows "label =
     (if details = [] then ''Insufficient data for classification''
      else final_classification t
             (Fin (rnd (of_nat (count_list (map snd details) Great) / of_nat (length details))),
              Fin (rnd (of_nat (count_list (map snd details) Good) / of_nat (length details))),
              Fin (rnd (of_nat (count_list (map snd details) No_buy) / of_nat (length details)))))"
proof (cases ro)
  case None
  with assms(2) show ?thesis by (simp add: classify_stock_def)
next
  case (Some rs)
  with assms(1) have "distinct (map fst rs)" by (simp add: wf_ratios_def)
  then have d: "snd (rate_ratios (criteria_of t) rs (\<lambda>r. 0, [])) = ratings_of (criteria_of t) rs"
    by (rule rate_ratios_details)
  show ?thesis
    using assms(2) unfolding Some classify_stock_Some d
    by (auto split: if_splits)
qed

text \<open>
  C3: under one analysis type, two ratios dictionaries whose rating details hold the
  same number of \<open>great\<close>, of \<open>good\<close> and of \<open>no_buy\<close> ratings get the same label,
  whichever ratios the ratings belong to.
\<close>

theorem classify_stock_label_by_counts:
  assumes "wf_ratios r1" and "wf_ratios r2"
    and "classify_stock r1 t = Inr (l1, d1)"
    and "classify_stock r2 t = Inr (l2, d2)"
    and "\<forall>r. count_list (map snd d1) r = count_list (map snd d2) r"
  shows "l1 = l2"
proof -
  have len: "length d1 = length d2"
    using count_rating_sum [of "map snd d1"] count_rating_sum [of "map snd d2"] assms(5)
    by simp
  then have "d1 = [] \<longleftrightarrow> d2 = []" by auto
  then show ?thesis
    using classify_stock_by_details [OF assms(1,3)] classify_stock_by_details [OF assms(2,4)]
      assms(5) len
    by simp
qed

theorem classify_stock_label_by_counts_witness:
  "wf_ratios (Some [(''pe_ratio'', Some (Fin 10)), (''pb_ratio'', Some (Fin 2))])
   \<and> wf_ratios (Some [(''roe'', Some (lit (12 / 100))), (''peg_ratio'', Some (lit (5 / 10)))])
   \<and> classify_stock (Some [(''pe_ratio'', Some (Fin 10)), (''pb_ratio'', Some (Fin 2))]) ''value''
       = Inr (''GREAT BUY'', [(''pe_ratio'', Great), (''pb_ratio'', Good)])
   \<and> classify_stock (Some [(''roe'', Some (lit (12 / 100))), (''peg_ratio'', Some (lit (5 / 10)))]) ''value''
       = Inr (''GREAT BUY'', [(''roe'', Good), (''peg_ratio'', Great)])
   \<and> (\<forall>r. count_list (map snd [(''pe_ratio'', Great), (''pb_ratio'', Good)]) r
          = count_list (map snd [(''roe'', Good), (''peg_ratio'', Great)]) r)"
proof -
  have w1: "wf_ratios (Some [(''pe_ratio'', Some (Fin 10)), (''pb_ratio'', Some (Fin 2))])"
    by (simp add: wf_ratios_def)
  have w2: "wf_ratios (Some [(''roe'', Some (lit (12 / 100))), (''peg_ratio'', Some (lit (5 / 10)))])"
    by (simp add: wf_ratios_def)
  have c1: "classify_stock (Some [(''pe_ratio'', Some (Fin 10)), (''pb_ratio'', Some (Fin 2))]) ''value''
       = Inr (''GREAT BUY'', [(''pe_ratio'', Great), (''pb_ratio'', Good)])"
    by code_simp
  have c2: "classify_stock (Some [(''roe'', Some (lit (12 / 100))), (''peg_ratio'', Some (lit (5 / 10)))]) ''value''
       = Inr (''GREAT BUY'', [(''roe'', Good), (''peg_ratio'', Great)])"
    by code_simp
  have cnt: "\<forall>r. count_list (map snd [(''pe_ratio'', Great), (''pb_ratio'', Good)]) r
          = count_list (map snd [(''roe'', Good), (''peg_ratio'', Great)]) r"
    by simp
  from classify_stock_label_by_counts [OF w1 w2 c1 c2 cnt] w1 w2 c1 c2 cnt
  show ?thesis by simp
qed

lemma ratings_of_filter:
  "ratings_of c (filter (\<lambda>(k, v). k \<in> set (map fst c)) rs) = ratings_of c rs"
proof (induction rs)
  case Nil
  then show ?case by simp
next
  case (Cons x rs)
  obtain k v where x: "x = (k, v)" by (cases x)
  show ?case
  proof (cases "k \<in> set (map fst c)")
    case True
    with Cons show ?thesis by (simp add: x split: option.splits)
  next
    case False
    then have "map_of c k = None" by (simp add: map_of_eq_None_iff)
    with Cons False show ?thesis by (simp add: x split: option.splits)
  qed
qed

text \<open>
  C4: only the ratios named in the criteria table of the analysis type count:
  \<open>classify_stock\<close> gives the same result on the restriction of the ratios to the keys of
  that table. The two tables share no ratio name, so the ratios of one perspective never
  influence the classification of the other.
\<close>

theorem classify_stock_restricted:
  "classify_stock ro t = classify_stock (restrict_ratios (criteria_of t) ro) t
   \<and> set (map fst VALUE_CRITERIA) \<inter> set (map fst GROWTH_MOMENTUM_CRITERIA) = {}"
proof -
  have "classify_stock ro t = classify_stock (restrict_ratios (criteria_of t) ro) t"
  proof (cases ro)
    case None
    then show ?thesis by (simp add: restrict_ratios_def)
  next
    case (Some rs)
    show ?thesis
      unfolding Some restrict_ratios_def option.map classify_stock_Some rate_ratios_eq
        ratings_of_filter ..
  qed
  moreover have "set (map fst VALUE_CRITERIA) \<inter> set (map fst GROWTH_MOMENTUM_CRITERIA) = {}"
    by (simp add: VALUE_CRITERIA_def GROWTH_MOMENTUM_CRITERIA_def)
  ultimately show ?thesis by simp
qed

theorem classify_stock_restricted_witness:
  "restrict_ratios (criteria_of ''value'')
       (Some [(''pe_ratio'', Some (Fin 10)), (''revenue_growth'', Some (lit (3 / 10)))])
     = Some [(''pe_ratio'', Some (Fin 10))]
   \<and> classify_stock (Some [(''pe_ratio'', Some (Fin 10)), (''revenue_growth'', Some (lit (3 / 10)))]) ''value''
     = classify_stock (Some [(''pe_ratio'', Some (Fin 10))]) ''value''"
proof -
  have "restrict_ratios (criteria_of ''value'')
       (Some [(''pe_ratio'', Some (Fin 10)), (''revenue_growth'', Some (lit (3 / 10)))])
     = Some [(''pe_ratio'', Some (Fin 10))]"
    by (simp add: restrict_ratios_def criteria_of_def VALUE_CRITERIA_def)
  then show ?thesis
    using classify_stock_restricted
      [of "Some [(''pe_ratio'', Some (Fin 10)), (''revenue_growth'', Some (lit (3 / 10)))]" "''value''"]
    by simp
qed

section \<open>Percentages\<close>

text \<open>
  The doubles of \<open>0.1\<close> and \<open>0.2\<close>, and three numbers that are doubles already.
\<close>

lemma rnd_examples:
  "rnd (1 / 10) = 3602879701896397 / 36028797018963968"
  "rnd (2 / 10) = 3602879701896397 / 18014398509481984"
  "rnd (1 / 2) = 1 / 2"
  "rnd 100 = 100"
  "rnd (- 3 / 4) = - 3 / 4"
  by code_simp+

lemma round_half_even_err: "\<bar>of_int (round_half_even y) - y\<bar> \<le> 1 / 2"
proof -
  have "of_int \<lfloor>y\<rfloor> \<le> y" "y < of_int \<lfloor>y\<rfloor> + 1" by linarith+
  then show ?thesis by (auto simp: round_half_even_def Let_def)
qed

lemma binade_le_0:
  assumes "0 < x" "x \<le> 1"
  shows "binade x \<le> 0"
proof (cases "1 \<le> x")
  case True
  with assms have "x = 1" by simp
  moreover have "bitlen 1 = 1" by (subst compute_bitlen) simp
  ultimately show ?thesis by (simp add: binade_def)
next
  case False
  then show ?thesis using bitlen_nonneg [of "\<lceil>1 / x\<rceil> - 1"] by (simp add: binade_def)
qed

lemma pow2_ge:
  assumes "52 \<le> k"
  shows "2 ^ 52 \<le> pow2 k"
proof -
  have "(2::rat) ^ 52 \<le> 2 ^ nat k" using assms by (intro power_increasing) auto
  then show ?thesis using assms by (simp add: pow2_def)
qed

lemma rnd_err:
  assumes "0 \<le> x" "x \<le> 1"
  shows "\<bar>rnd x - x\<bar> \<le> 1 / 2 ^ 53"
proof (cases "x = 0")
  case True
  then show ?thesis by (simp add: rnd_def)
next
  case False
  with assms have pos: "0 < x" by simp
  define s where "s = pow2 (52 - binade \<bar>x\<bar>)"
  define m where "m = round_half_even (\<bar>x\<bar> * s)"
  have "52 \<le> 52 - binade \<bar>x\<bar>" using binade_le_0 [of x] pos assms(2) by simp
  then have s: "2 ^ 52 \<le> s" unfolding s_def by (rule pow2_ge)
  then have s0: "0 < s" by (rule less_le_trans [rotated]) simp
  have r: "rnd x = of_int m / s" using pos by (simp add: rnd_def s_def m_def Let_def)
  have "\<bar>of_int m - x * s\<bar> \<le> 1 / 2" using round_half_even_err [of "x * s"] pos by (simp add: m_def)
  then have "\<bar>of_int m - x * s\<bar> / s \<le> (1 / 2) / s" using s0 by (intro divide_right_mono) auto
  moreover have "\<bar>of_int m - x * s\<bar> / s = \<bar>of_int m / s - x\<bar>"
  proof -
    have "of_int m / s - x = (of_int m - x * s) / s" using s0 by (simp add: field_simps)
    then show ?thesis using s0 by simp
  qed
  moreover have "(1 / 2) / s \<le> 1 / 2 ^ 53" using s s0 by (simp add: field_simps)
  ultimately show ?thesis by (simp add: r)
qed

lemma percentages_sum:
  assumes "total_rated_of cnt \<noteq> 0"
  shows "\<exists>g d n. percentages cnt = Inr (Fin g, Fin d, Fin n)
    \<and> g = rnd (of_nat (cnt Great) / of_nat (total_rated_of cnt))
    \<and> d = rnd (of_nat (cnt Good) / of_nat (total_rated_of cnt))
    \<and> n = rnd (of_nat (cnt No_buy) / of_nat (total_rated_of cnt))
    \<and> (of_nat (cnt Great) / of_nat (total_rated_of cnt)
        + of_nat (cnt Good) / of_nat (total_rated_of cnt)
        + of_nat (cnt No_buy) / of_nat (total_rated_of cnt) = (1 :: rat))
    \<and> \<bar>g + d + n - 1\<bar> \<le> 3 / 2 ^ 53"
proof -
  define T :: rat where "T = of_nat (total_rated_of cnt)"
  define a :: rat where "a = of_nat (cnt Great) / T"
  define b :: rat where "b = of_nat (cnt Good) / T"
  define c :: rat where "c = of_nat (cnt No_buy) / T"
  have T: "0 < T" using assms by (simp add: T_def)
  have Tsum: "T = of_nat (cnt Great) + of_nat (cnt Good) + of_nat (cnt No_buy)"
    by (simp add: T_def total_rated_of_def)
  have sum: "a + b + c = 1"
    unfolding a_def b_def c_def using T Tsum by (simp add: add_divide_distrib [symmetric])
  have range: "0 \<le> a" "a \<le> 1" "0 \<le> b" "b \<le> 1" "0 \<le> c" "c \<le> 1"
    unfolding a_def b_def c_def using T Tsum by (simp_all add: divide_le_eq)
  have "\<bar>rnd a - a\<bar> \<le> 1 / 2 ^ 53" "\<bar>rnd b - b\<bar> \<le> 1 / 2 ^ 53" "\<bar>rnd c - c\<bar> \<le> 1 / 2 ^ 53"
    using range by (simp_all only: rnd_err)
  then have "\<bar>rnd a + rnd b + rnd c - (a + b + c)\<bar> \<le> 3 / 2 ^ 53" by linarith
  then have "\<bar>rnd a + rnd b + rnd c - 1\<bar> \<le> 3 / 2 ^ 53" by (simp only: sum)
  moreover have "percentages cnt = Inr (Fin (rnd a), Fin (rnd b), Fin (rnd c))"
    using assms by (simp add: percentages_Inr a_def b_def c_def T_def)
  ultimately show ?thesis using sum unfolding a_def b_def c_def T_def by blast
qed

text \<open>
  C7, as amended: \<open>classify_stock\<close> never raises; the three divisions, which raise on a
  zero \<open>total_rated\<close>, are reached only with \<open>total_rated\<close> not zero, and then each
  percentage is the quotient of its count by \<open>total_rated\<close> rounded to a float: the
  quotients sum to 1, and the floats sum to 1 up to three rounding errors of
  \<open>2 ^ -53\<close>. \<open>strength_percentage\<close> is \<open>0.0\<close> without a division when \<open>total_rated\<close>
  is 0, and \<open>(great_count + good_count) / total_rated * 100\<close> otherwise.
\<close>

theorem percentages_never_divide_by_zero:
  "(\<exists>p. classify_stock ro t = Inr p)
   \<and> (total_rated_of cnt = 0 \<longrightarrow> percentages cnt = Inl ZeroDivisionError)
   \<and> (total_rated_of cnt \<noteq> 0 \<longrightarrow>
        (\<exists>g d n. percentages cnt = Inr (Fin g, Fin d, Fin n)
           \<and> g = rnd (of_nat (cnt Great) / of_nat (total_rated_of cnt))
           \<and> d = rnd (of_nat (cnt Good) / of_nat (total_rated_of cnt))
           \<and> n = rnd (of_nat (cnt No_buy) / of_nat (total_rated_of cnt))
           \<and> (of_nat (cnt Great) / of_nat (total_rated_of cnt)
               + of_nat (cnt Good) / of_nat (total_rated_of cnt)
               + of_nat (cnt No_buy) / of_nat (total_rated_of cnt) = (1 :: rat))
           \<and> \<bar>g + d + n - 1\<bar> \<le> 3 / 2 ^ 53))
   \<and> (total_rated report = 0 \<longrightarrow> strength_percentage report = Inr (Fin 0))
   \<and> (total_rated report \<noteq> 0 \<longrightarrow>
        strength_percentage report
          = Inr (fmul (Fin (rnd (of_nat (great_count report + good_count report)
                                 / of_nat (total_rated report))))
                      (Fin 100)))"
proof -
  have "\<exists>p. classify_stock ro t = Inr p" using classify_stock_total [of ro t] by blast
  moreover have "total_rated_of cnt = 0 \<longrightarrow> percentages cnt = Inl ZeroDivisionError"
    by (simp add: percentages_zero)
  moreover have "total_rated report = 0 \<longrightarrow> strength_percentage report = Inr (Fin 0)"
    by (simp add: strength_percentage_def)
  moreover have "total_rated report \<noteq> 0 \<longrightarrow>
        strength_percentage report
          = Inr (fmul (Fin (rnd (of_nat (great_count report + good_count report)
                                 / of_nat (total_rated report))))
                      (Fin 100))"
    by (simp add: strength_percentage_def truediv_def bind_err_def)
  ultimately show ?thesis using percentages_sum [of cnt] by blast
qed

theorem percentages_never_divide_by_zero_witness:
  "total_rated_of ((\<lambda>r. 0)(Great := 1, Good := 4, No_buy := 1)) \<noteq> 0
   \<and> (\<exists>g d n. percentages ((\<lambda>r. 0)(Great := 1, Good := 4, No_buy := 1)) = Inr (Fin g, Fin d, Fin n)
          \<and> \<bar>g + d + n - 1\<bar> \<le> 3 / 2 ^ 53)
   \<and> total_rated_of (\<lambda>r. 0) = 0
   \<and> percentages (\<lambda>r. 0) = Inl ZeroDivisionError
   \<and> total_rated
       \<lparr>ticker = ''X'', company_name = ''X'', current_price = None, currency = ''USD'',
        timestamp = [], classification = ''NO BUY'', ratios = [], rating_details = [(''pe_ratio'', Great), (''roe'', No_buy)],
        ratio_explanations = [], analysis_type = ''value''\<rparr> \<noteq> 0
   \<and> strength_percentage
       \<lparr>ticker = ''X'', company_name = ''X'', current_price = None, currency = ''USD'',
        timestamp = [], classification = ''NO BUY'', ratios = [], rating_details = [(''pe_ratio'', Great), (''roe'', No_buy)],
        ratio_explanations = [], analysis_type = ''value''\<rparr> = Inr (Fin 50)
   \<and> total_rated
       \<lparr>ticker = ''X'', company_name = ''X'', current_price = None, currency = ''USD'',
        timestamp = [], classification = ''NO BUY'', ratios = [], rating_details = [],
        ratio_explanations = [], analysis_type = ''value''\<rparr> = 0
   \<and> strength_percentage
       \<lparr>ticker = ''X'', company_name = ''X'', current_price = None, currency = ''USD'',
        timestamp = [], classification = ''NO BUY'', ratios = [], rating_details = [],
        ratio_explanations = [], analysis_type = ''value''\<rparr> = Inr (Fin 0)"
proof -
  have r50: "fmul (Fin (rnd (1 / 2))) (Fin 100) = Fin 50" by code_simp
  have a: "total_rated_of ((\<lambda>r. 0)(Great := 1, Good := 4, No_buy := 1)) \<noteq> 0"
    by (simp add: total_rated_of_def)
  have b: "total_rated_of (\<lambda>r. 0) = 0" by (simp add: total_rated_of_def)
  have c: "total_rated
       \<lparr>ticker = ''X'', company_name = ''X'', current_price = None, currency = ''USD'',
        timestamp = [], classification = ''NO BUY'', ratios = [], rating_details = [(''pe_ratio'', Great), (''roe'', No_buy)],
        ratio_explanations = [], analysis_type = ''value''\<rparr> \<noteq> 0"
    by (simp add: total_rated_def)
  have d: "total_rated
       \<lparr>ticker = ''X'', company_name = ''X'', current_price = None, currency = ''USD'',
        timestamp = [], classification = ''NO BUY'', ratios = [], rating_details = [],
        ratio_explanations = [], analysis_type = ''value''\<rparr> = 0"
    by (simp add: total_rated_def)
  note T1 = percentages_never_divide_by_zero
        [of None "[]" "(\<lambda>r. 0)(Great := 1, Good := 4, No_buy := 1)"
          "\<lparr>ticker = ''X'', company_name = ''X'', current_price = None, currency = ''USD'',
        timestamp = [], classification = ''NO BUY'', ratios = [], rating_details = [(''pe_ratio'', Great), (''roe'', No_buy)],
        ratio_explanations = [], analysis_type = ''value''\<rparr>"]
  note T0 = percentages_never_divide_by_zero
        [of None "[]" "\<lambda>r. 0"
          "\<lparr>ticker = ''X'', company_name = ''X'', current_price = None, currency = ''USD'',
        timestamp = [], classification = ''NO BUY'', ratios = [], rating_details = [],
        ratio_explanations = [], analysis_type = ''value''\<rparr>"]
  from T1 a have e: "\<exists>g d n. percentages ((\<lambda>r. 0)(Great := 1, Good := 4, No_buy := 1)) = Inr (Fin g, Fin d, Fin n)
          \<and> \<bar>g + d + n - 1\<bar> \<le> 3 / 2 ^ 53"
    by blast
  from T1 c have "strength_percentage
       \<lparr>ticker = ''X'', company_name = ''X'', current_price = None, currency = ''USD'',
        timestamp = [], classification = ''NO BUY'', ratios = [], rating_details = [(''pe_ratio'', Great), (''roe'', No_buy)],
        ratio_explanations = [], analysis_type = ''value''\<rparr>
     = Inr (fmul (Fin (rnd (of_nat (great_count
       \<lparr>ticker = ''X'', company_name = ''X'', current_price = None, currency = ''USD'',
        timestamp = [], classification = ''NO BUY'', ratios = [], rating_details = [(''pe_ratio'', Great), (''roe'', No_buy)],
        ratio_explanations = [], analysis_type = ''value''\<rparr> + good_count
       \<lparr>ticker = ''X'', company_name = ''X'', current_price = None, currency = ''USD'',
        timestamp = [], classification = ''NO BUY'', ratios = [], rating_details = [(''pe_ratio'', Great), (''roe'', No_buy)],
        ratio_explanations = [], analysis_type = ''value''\<rparr>) / of_nat (total_rated
       \<lparr>ticker = ''X'', company_name = ''X'', current_price = None, currency = ''USD'',
        timestamp = [], classification = ''NO BUY'', ratios = [], rating_details = [(''pe_ratio'', Great), (''roe'', No_buy)],
        ratio_explanations = [], analysis_type = ''value''\<rparr>)))) (Fin 100))"
    by blast
  then have f: "strength_percentage
       \<lparr>ticker = ''X'', company_name = ''X'', current_price = None, currency = ''USD'',
        timestamp = [], classification = ''NO BUY'', ratios = [], rating_details = [(''pe_ratio'', Great), (''roe'', No_buy)],
        ratio_explanations = [], analysis_type = ''value''\<rparr> = Inr (Fin 50)"
    using r50 by (simp add: great_count_def good_count_def total_rated_def)
  from T0 b have g: "percentages (\<lambda>r. 0) = Inl ZeroDivisionError" by blast
  from T0 d have h: "strength_percentage
       \<lparr>ticker = ''X'', company_name = ''X'', current_price = None, currency = ''USD'',
        timestamp = [], classification = ''NO BUY'', ratios = [], rating_details = [],
        ratio_explanations = [], analysis_type = ''value''\<rparr> = Inr (Fin 0)"
    by blast
  from a e b g c f d h show ?thesis by blast
qed

theorem percentages_sum_counterexample:
  "classify_stock
      (Some [(''pe_ratio'', Some (Fin 10)), (''pb_ratio'', Some (Fin 2)), (''ps_ratio'', Some (Fin 3)),
         (''roe'', Some (lit (12 / 100))), (''current_ratio'', Some (lit (12 / 10))),
         (''peg_ratio'', Some (Fin 5))]) ''value''
     = Inr (''GOOD BUY'',
            [(''pe_ratio'', Great), (''pb_ratio'', Good), (''ps_ratio'', Good), (''roe'', Good),
             (''current_ratio'', Good), (''peg_ratio'', No_buy)])
   \<and> percentages (fst (rate_ratios (criteria_of ''value'')
        [(''pe_ratio'', Some (Fin 10)), (''pb_ratio'', Some (Fin 2)), (''ps_ratio'', Some (Fin 3)),
         (''roe'', Some (lit (12 / 100))), (''current_ratio'', Some (lit (12 / 10))),
         (''peg_ratio'', Some (Fin 5))] (\<lambda>r. 0, [])))
     = Inr (Fin (6004799503160661 / 36028797018963968),
            Fin (6004799503160661 / 9007199254740992),
            Fin (6004799503160661 / 36028797018963968))
   \<and> (6004799503160661 / 36028797018963968 + 6004799503160661 / 9007199254740992
        + 6004799503160661 / 36028797018963968 :: rat) \<noteq> 1
   \<and> fadd (fadd (Fin (6004799503160661 / 36028797018963968))
                  (Fin (6004799503160661 / 9007199254740992)))
            (Fin (6004799503160661 / 36028797018963968)) \<noteq> Fin 1"
  by code_simp

section \<open>calculate_ratios never raises\<close>

lemma fdiv_Inr: "b \<noteq> Fin 0 \<Longrightarrow> \<exists>q. fdiv a b = Inr q"
  by (cases b; cases a) auto

lemma div_if_truthy_Inr: "\<exists>q. div_if_truthy a b = Inr q"
proof (cases "truthy b")
  case True
  then obtain q where "fdiv a b = Inr q" using fdiv_Inr [of b a] by (auto simp: truthy_def)
  with True show ?thesis by (simp add: div_if_truthy_def bind_err_def)
next
  case False
  then show ?thesis by (simp add: div_if_truthy_def)
qed

lemma price_change_Inr: "\<exists>q. price_change s e = Inr q"
  by (simp add: price_change_def div_if_truthy_Inr)

lemma base_ratios_Inr:
  "\<exists>de. base_ratios i = Inr
     [(''pe_ratio'', get_or i ''trailingPE'' (get_or i ''forwardPE'' None)),
      (''pb_ratio'', get_or i ''priceToBook'' None),
      (''ps_ratio'', get_or i ''priceToSalesTrailing12Months'' None),
      (''debt_to_equity'', de),
      (''roe'', get_or i ''returnOnEquity'' None),
      (''current_ratio'', get_or i ''currentRatio'' None),
      (''dividend_yield'', get_or i ''dividendYield'' (Some (Fin 0))),
      (''profit_margin'', get_or i ''profitMargins'' None),
      (''peg_ratio'', get_or i ''pegRatio'' None)]
   \<and> (de = None) = (get_or i ''debtToEquity'' None = None \<or> get_or i ''debtToEquity'' None = Some (Fin 0))"
proof (cases "get_or i ''debtToEquity'' None")
  case None
  then show ?thesis by (simp add: base_ratios_def bind_err_def)
next
  case (Some d)
  show ?thesis
  proof (cases "truthy d")
    case True
    then have d: "d \<noteq> Fin 0" by (simp add: truthy_def)
    obtain q where q: "fdiv d (Fin 100) = Inr q" using fdiv_Inr [of "Fin 100" d] by auto
    show ?thesis using Some True d
      by (simp add: base_ratios_def bind_err_def q del: fdiv.simps)
  next
    case False
    then show ?thesis using Some by (simp add: base_ratios_def bind_err_def truthy_def)
  qed
qed

text \<open>A stage of the calculation adds keys at the end and leaves the other entries.\<close>

lemma price_ratios_Inr:
  assumes "h \<noteq> []"
    and "''price_performance_6m'' \<notin> set (map fst rs)"
    and "''price_performance_1y'' \<notin> set (map fst rs)"
    and "''relative_strength'' \<notin> set (map fst rs)"
  shows "\<exists>rs'. price_ratios h m rs = Inr rs'
    \<and> (map fst rs' = map fst rs @ [''price_performance_6m'', ''price_performance_1y'']
       \<or> map fst rs' = map fst rs @ [''price_performance_6m'', ''price_performance_1y'', ''relative_strength''])
    \<and> (\<forall>k. k \<in> set (map fst rs) \<longrightarrow> map_of rs' k = map_of rs k)"
proof -
  from assms(1) have idx: "length h - min (length h) 126 < length h" "0 < length h"
    by (cases h; simp)+
  obtain p6 where p6: "price_change (h ! (length h - min (length h) 126)) (last h) = Inr p6"
    using price_change_Inr by blast
  obtain p1 where p1: "price_change (hd h) (last h) = Inr p1"
    using price_change_Inr by blast
  define rs1 where "rs1 = AList.update ''price_performance_1y'' p1
     (AList.update ''price_performance_6m'' p6 rs)"
  have k1: "map fst rs1 = map fst rs @ [''price_performance_6m'', ''price_performance_1y'']"
    using assms(2,3) by (simp add: rs1_def update_keys)
  have v1: "map_of rs1 k = map_of rs k" if "k \<in> set (map fst rs)" for k
  proof -
    from that assms(2,3) have "k \<noteq> ''price_performance_6m''" "k \<noteq> ''price_performance_1y''"
      by blast+
    then show ?thesis by (simp add: rs1_def update_conv')
  qed
  have fresh: "''relative_strength'' \<notin> set (map fst rs1)"
    using assms(4) by (simp add: k1)
  have step: "price_ratios h m rs =
     (case m of
        None \<Rightarrow> Inr rs1
      | Some md \<Rightarrow>
          if md = [] then Inr rs1
          else bind_err (if 0 < length md then price_change (hd md) (last md) else Inr None)
                 (\<lambda>market_return.
                    case (get_or rs1 ''price_performance_1y'' None, market_return) of
                      (Some s, Some mr) \<Rightarrow>
                        Inr (AList.update ''relative_strength'' (Some (fsub s mr)) rs1)
                    | _ \<Rightarrow> Inr rs1))"
    using idx unfolding price_ratios_def rs1_def Let_def by (simp add: p6 p1 bind_err_def)
  show ?thesis
  proof (cases m)
    case None
    then show ?thesis using step k1 v1 by simp
  next
    case (Some md)
    show ?thesis
    proof (cases "md = []")
      case True
      then show ?thesis using step Some k1 v1 by simp
    next
      case False
      obtain pm where pm: "price_change (hd md) (last md) = Inr pm"
        using price_change_Inr by blast
      have upd: "map fst (AList.update ''relative_strength'' x rs1)
          = map fst rs @ [''price_performance_6m'', ''price_performance_1y'', ''relative_strength'']"
        for x using fresh by (simp add: update_keys k1)
      have val: "map_of (AList.update ''relative_strength'' x rs1) k = map_of rs k"
        if "k \<in> set (map fst rs)" for k x
      proof -
        from that assms(4) have "k \<noteq> ''relative_strength''" by blast
        then show ?thesis using v1 [OF that] by (simp add: update_conv')
      qed
      from False have "price_ratios h m rs =
          (case (get_or rs1 ''price_performance_1y'' None, pm) of
             (Some s, Some mr) \<Rightarrow> Inr (AList.update ''relative_strength'' (Some (fsub s mr)) rs1)
           | _ \<Rightarrow> Inr rs1)"
        using step Some pm by (simp add: bind_err_def)
      then show ?thesis using k1 v1 upd val
        by (auto split: option.splits prod.splits)
    qed
  qed
qed

lemma growth_ratios_Inr:
  assumes "set (growth_keys @ [''pe_growth'']) \<inter> set (map fst rs) = {}"
  shows "\<exists>rs'. growth_ratios i rs = Inr rs'
    \<and> (map fst rs' = map fst rs @ growth_keys
       \<or> map fst rs' = map fst rs @ growth_keys @ [''pe_growth''])
    \<and> (\<forall>k. k \<in> set (map fst rs) \<longrightarrow> map_of rs' k = map_of rs k)"
proof -
  define rs6 where "rs6 =
     AList.update ''analyst_recommendation'' (get_or i ''recommendationMean'' None)
      (AList.update ''operating_margin'' (get_or i ''operatingMargins'' None)
        (AList.update ''gross_margin'' (get_or i ''grossMargins'' None)
          (AList.update ''eps_growth'' (get_or i ''earningsQuarterlyGrowth'' None)
            (AList.update ''earnings_growth'' (get_or i ''earningsGrowth'' None)
              (AList.update ''revenue_growth'' (get_or i ''revenueGrowth'' None) rs)))))"
  have k6: "map fst rs6 = map fst rs @ growth_keys"
    using assms by (simp add: rs6_def update_keys growth_keys_def)
  have v6: "map_of rs6 k = map_of rs k" if "k \<in> set (map fst rs)" for k
  proof -
    from that assms have "k \<notin> set growth_keys" by auto
    then show ?thesis by (simp add: rs6_def update_conv' growth_keys_def)
  qed
  have fresh: "''pe_growth'' \<notin> set (map fst rs6)"
    using assms by (simp add: k6 growth_keys_def)
  have upd: "map fst (AList.update ''pe_growth'' x rs6) = map fst rs @ growth_keys @ [''pe_growth'']"
    for x using fresh by (simp add: update_keys k6)
  have val: "map_of (AList.update ''pe_growth'' x rs6) k = map_of rs k"
    if "k \<in> set (map fst rs)" for k x
  proof -
    from assms have "''pe_growth'' \<notin> set (map fst rs)" by simp
    with that have "k \<noteq> ''pe_growth''" by blast
    then show ?thesis using v6 [OF that] by (simp add: update_conv')
  qed
  have step: "growth_ratios i rs =
     (case (get_or rs6 ''pe_ratio'' None, get_or rs6 ''earnings_growth'' None) of
        (Some pe, Some eg) \<Rightarrow>
          if flt (Fin 0) eg then
            bind_err (if flt (Fin 0) pe then fdiv eg pe else Inr (Fin 0))
              (\<lambda>pe_growth_factor.
                 let x = fmul pe_growth_factor (Fin 10)
                 in Inr (AList.update ''pe_growth''
                           (Some (if flt x (lit (15 / 10)) then x else lit (15 / 10))) rs6))
          else Inr rs6
      | _ \<Rightarrow> Inr rs6)"
    unfolding growth_ratios_def rs6_def Let_def ..
  have factor: "\<exists>f. (if flt (Fin 0) pe then fdiv eg pe else Inr (Fin 0)) = Inr f" for pe eg
  proof (cases "flt (Fin 0) pe")
    case True
    then have "pe \<noteq> Fin 0" by auto
    then show ?thesis using True fdiv_Inr [of pe eg] by simp
  next
    case False
    then show ?thesis by simp
  qed
  show ?thesis
  proof (cases "get_or rs6 ''pe_ratio'' None")
    case None
    then show ?thesis using step k6 v6 by simp
  next
    case pe: (Some pe)
    show ?thesis
    proof (cases "get_or rs6 ''earnings_growth'' None")
      case None
      then show ?thesis using step pe k6 v6 by simp
    next
      case eg: (Some eg)
      show ?thesis
      proof (cases "flt (Fin 0) eg")
        case False
        then show ?thesis using step pe eg k6 v6 by simp
      next
        case True
        obtain f where f: "(if flt (Fin 0) pe then fdiv eg pe else Inr (Fin 0)) = Inr f"
          using factor by blast
        have "growth_ratios i rs = Inr (AList.update ''pe_growth''
            (Some (if flt (fmul f (Fin 10)) (lit (15 / 10)) then fmul f (Fin 10) else lit (15 / 10))) rs6)"
          unfolding step pe eg using True f by (simp add: bind_err_def Let_def del: fdiv.simps)
        then show ?thesis using upd val by simp
      qed
    qed
  qed
qed

lemma statement_ratios_Inr:
  assumes "''current_ratio'' \<in> set (map fst rs)"
  shows "\<exists>rs'. statement_ratios inc bal rs = Inr rs'
    \<and> map fst rs' = map fst rs
    \<and> (\<forall>k. k \<noteq> ''current_ratio'' \<longrightarrow> map_of rs' k = map_of rs k)
    \<and> (inc = None \<or> bal = None \<longrightarrow> rs' = rs)"
proof (cases inc)
  case None
  then show ?thesis by (simp add: statement_ratios_def)
next
  case i: (Some i)
  show ?thesis
  proof (cases bal)
    case None
    then show ?thesis using i by (simp add: statement_ratios_def)
  next
    case b: (Some b)
    show ?thesis
    proof (cases "statement_empty i \<or> statement_empty b")
      case True
      then show ?thesis using i b by (simp add: statement_ratios_def)
    next
      case nonempty: False
      show ?thesis
      proof (cases "get_or rs ''current_ratio'' None = None
          \<and> ''TotalCurrentAssets'' \<in> set (map fst (hd b))
          \<and> ''TotalCurrentLiabilities'' \<in> set (map fst (hd b))")
        case False
        then have "statement_ratios inc bal rs = Inr rs"
          using i b nonempty by (auto simp add: statement_ratios_def Let_def)
        then show ?thesis by simp
      next
        case True
        then have "map_of (hd b) ''TotalCurrentAssets'' \<noteq> None"
          "map_of (hd b) ''TotalCurrentLiabilities'' \<noteq> None"
          by (simp_all add: map_of_eq_None_iff)
        then obtain a l where a: "map_of (hd b) ''TotalCurrentAssets'' = Some a"
          and l: "map_of (hd b) ''TotalCurrentLiabilities'' = Some l"
          by blast
        obtain q where q: "div_if_truthy a l = Inr q" using div_if_truthy_Inr by blast
        have "statement_ratios inc bal rs = Inr (AList.update ''current_ratio'' q rs)"
          using i b nonempty True a l q by (simp add: statement_ratios_def Let_def bind_err_def)
        then show ?thesis using assms i b by (simp add: update_keys update_conv')
      qed
    qed
  qed
qed

lemma base_ratios_keys: "base_ratios i = Inr b \<Longrightarrow> map fst b = base_keys"
  using base_ratios_Inr [of i] by (auto simp: base_keys_def)

lemma growth_stage_Inr:
  assumes "map fst b = base_keys"
  shows "\<exists>r. (case hist of
            None \<Rightarrow> Inr b
          | Some h \<Rightarrow>
              if t = ''growth_momentum'' then
                bind_err (if h \<noteq> [] then price_ratios h m b else Inr b) (growth_ratios i)
              else Inr b) = Inr r
    \<and> (if t = ''growth_momentum'' \<and> hist \<noteq> None
        then \<exists>p e. map fst r = base_keys @ p @ growth_keys @ e
          \<and> p \<in> {[], [''price_performance_6m'', ''price_performance_1y''],
                  [''price_performance_6m'', ''price_performance_1y'', ''relative_strength'']}
          \<and> e \<in> {[], [''pe_growth'']}
        else r = b)
    \<and> (\<forall>k. k \<in> set base_keys \<longrightarrow> map_of r k = map_of b k)"
proof (cases "t = ''growth_momentum'' \<and> hist \<noteq> None")
  case False
  then show ?thesis by (auto split: option.splits)
next
  case True
  then obtain h where h: "hist = Some h" by auto
  have "\<exists>r1. (if h \<noteq> [] then price_ratios h m b else Inr b) = Inr r1
      \<and> (map fst r1 = base_keys
         \<or> map fst r1 = base_keys @ [''price_performance_6m'', ''price_performance_1y'']
         \<or> map fst r1 = base_keys @ [''price_performance_6m'', ''price_performance_1y'', ''relative_strength''])
      \<and> (\<forall>k. k \<in> set base_keys \<longrightarrow> map_of r1 k = map_of b k)"
  proof (cases "h = []")
    case True
    then show ?thesis using assms by simp
  next
    case False
    have "''price_performance_6m'' \<notin> set (map fst b)" "''price_performance_1y'' \<notin> set (map fst b)"
      "''relative_strength'' \<notin> set (map fst b)"
      unfolding assms by (simp_all add: base_keys_def)
    from price_ratios_Inr [OF False this, of m] show ?thesis using False assms by auto
  qed
  then obtain r1 where r1: "(if h \<noteq> [] then price_ratios h m b else Inr b) = Inr r1"
    and k1: "map fst r1 = base_keys
         \<or> map fst r1 = base_keys @ [''price_performance_6m'', ''price_performance_1y'']
         \<or> map fst r1 = base_keys @ [''price_performance_6m'', ''price_performance_1y'', ''relative_strength'']"
    and v1: "\<forall>k. k \<in> set base_keys \<longrightarrow> map_of r1 k = map_of b k"
    by blast
  have base_sub: "set base_keys \<subseteq> set (map fst r1)" using k1 by (auto simp del: set_map)
  have "set (growth_keys @ [''pe_growth'']) \<inter> set (map fst r1) = {}"
    using k1 by (auto simp: base_keys_def growth_keys_def)
  from growth_ratios_Inr [OF this, of i] obtain r where r: "growth_ratios i r1 = Inr r"
    and k: "map fst r = map fst r1 @ growth_keys \<or> map fst r = map fst r1 @ growth_keys @ [''pe_growth'']"
    and v: "\<forall>k. k \<in> set (map fst r1) \<longrightarrow> map_of r k = map_of r1 k"
    by blast
  have "(case hist of
            None \<Rightarrow> Inr b
          | Some h \<Rightarrow>
              if t = ''growth_momentum'' then
                bind_err (if h \<noteq> [] then price_ratios h m b else Inr b) (growth_ratios i)
              else Inr b) = Inr r"
    using True h r1 r by (simp add: bind_err_def)
  moreover have "\<forall>k. k \<in> set base_keys \<longrightarrow> map_of r k = map_of b k"
  proof (intro allI impI)
    fix k
    assume kb: "k \<in> set base_keys"
    with base_sub have "k \<in> set (map fst r1)" by blast
    with v have "map_of r k = map_of r1 k" by blast
    moreover from v1 kb have "map_of r1 k = map_of b k" by blast
    ultimately show "map_of r k = map_of b k" by simp
  qed
  moreover have "\<exists>p e. map fst r = base_keys @ p @ growth_keys @ e
          \<and> p \<in> {[], [''price_performance_6m'', ''price_performance_1y''],
                  [''price_performance_6m'', ''price_performance_1y'', ''relative_strength'']}
          \<and> e \<in> {[], [''pe_growth'']}"
  proof -
    from k1 obtain p where p: "map fst r1 = base_keys @ p"
      "p \<in> {[], [''price_performance_6m'', ''price_performance_1y''],
                  [''price_performance_6m'', ''price_performance_1y'', ''relative_strength'']}"
      by auto
    from k obtain e where e: "map fst r = map fst r1 @ growth_keys @ e" "e \<in> {[], [''pe_growth'']}"
      by auto
    from p e show ?thesis by auto
  qed
  ultimately show ?thesis using True by simp
qed

lemma calculate_ratios_Inr:
  assumes "info sd \<noteq> [] \<or> info_text sd \<noteq> []"
  shows "\<exists>b rs. base_ratios (info sd) = Inr b
    \<and> calculate_ratios (Some sd) t = Inr (Some rs)
    \<and> (if t = ''growth_momentum'' \<and> historical_data sd \<noteq> None
        then \<exists>p e. map fst rs = base_keys @ p @ growth_keys @ e
          \<and> p \<in> {[], [''price_performance_6m'', ''price_performance_1y''],
                  [''price_performance_6m'', ''price_performance_1y'', ''relative_strength'']}
          \<and> e \<in> {[], [''pe_growth'']}
        else map fst rs = base_keys)
    \<and> (\<forall>k. k \<in> set base_keys \<and> k \<noteq> ''current_ratio'' \<longrightarrow> map_of rs k = map_of b k)
    \<and> (income_stmt sd = None \<or> balance_sheet sd = None \<longrightarrow>
          map_of rs ''current_ratio'' = map_of b ''current_ratio'')"
proof -
  obtain b where b: "base_ratios (info sd) = Inr b" using base_ratios_Inr by blast
  then have kb: "map fst b = base_keys" by (rule base_ratios_keys)
  let ?mid = "case historical_data sd of
            None \<Rightarrow> Inr b
          | Some h \<Rightarrow>
              if t = ''growth_momentum'' then
                bind_err (if h \<noteq> [] then price_ratios h (market_data sd) b else Inr b)
                  (growth_ratios (info sd))
              else Inr b"
  from growth_stage_Inr [OF kb, where hist = "historical_data sd" and t = t
      and m = "market_data sd" and i = "info sd"]
  obtain r where r: "?mid = Inr r"
    and kr: "if t = ''growth_momentum'' \<and> historical_data sd \<noteq> None
        then \<exists>p e. map fst r = base_keys @ p @ growth_keys @ e
          \<and> p \<in> {[], [''price_performance_6m'', ''price_performance_1y''],
                  [''price_performance_6m'', ''price_performance_1y'', ''relative_strength'']}
          \<and> e \<in> {[], [''pe_growth'']}
        else r = b"
    and vr: "\<forall>k. k \<in> set base_keys \<longrightarrow> map_of r k = map_of b k"
    by (elim exE conjE) (rule that)
  have "\<exists>x. map fst r = base_keys @ x"
  proof (cases "t = ''growth_momentum'' \<and> historical_data sd \<noteq> None")
    case True
    with kr show ?thesis by auto
  next
    case False
    with kr kb show ?thesis by auto
  qed
  then obtain x where "map fst r = base_keys @ x" by blast
  then have "''current_ratio'' \<in> set (map fst r)" by (simp add: base_keys_def del: set_map)
  from statement_ratios_Inr [OF this, where inc = "income_stmt sd" and bal = "balance_sheet sd"]
  obtain rs where rs: "statement_ratios (income_stmt sd) (balance_sheet sd) r = Inr rs"
    and krs: "map fst rs = map fst r"
    and vrs: "\<forall>k. k \<noteq> ''current_ratio'' \<longrightarrow> map_of rs k = map_of r k"
    and nrs: "income_stmt sd = None \<or> balance_sheet sd = None \<longrightarrow> rs = r"
    by (elim exE conjE) (rule that)
  have c: "calculate_ratios (Some sd) t = Inr (Some rs)"
  proof -
    have "calculate_ratios (Some sd) t =
        bind_err ?mid (\<lambda>ratios.
          bind_err (statement_ratios (income_stmt sd) (balance_sheet sd) ratios)
            (\<lambda>ratios. Inr (Some ratios)))"
    proof (cases "info sd = []")
      case True
      with assms have "info_text sd \<noteq> []" by simp
      then show ?thesis using b by (simp add: calculate_ratios_def bind_err_def)
    next
      case False
      then show ?thesis using b by (simp add: calculate_ratios_def bind_err_def)
    qed
    then show ?thesis unfolding r by (simp add: bind_err_def rs)
  qed
  have "\<forall>k. k \<in> set base_keys \<and> k \<noteq> ''current_ratio'' \<longrightarrow> map_of rs k = map_of b k"
    using vrs vr by simp
  moreover have "income_stmt sd = None \<or> balance_sheet sd = None \<longrightarrow>
          map_of rs ''current_ratio'' = map_of b ''current_ratio''"
    using nrs vr by (auto simp: base_keys_def)
  moreover have "if t = ''growth_momentum'' \<and> historical_data sd \<noteq> None
        then \<exists>p e. map fst rs = base_keys @ p @ growth_keys @ e
          \<and> p \<in> {[], [''price_performance_6m'', ''price_performance_1y''],
                  [''price_performance_6m'', ''price_performance_1y'', ''relative_strength'']}
          \<and> e \<in> {[], [''pe_growth'']}
        else map fst rs = base_keys"
  proof (cases "t = ''growth_momentum'' \<and> historical_data sd \<noteq> None")
    case True
    with kr krs show ?thesis by simp
  next
    case False
    with kr have "r = b" by auto
    with False kb krs show ?thesis by auto
  qed
  ultimately show ?thesis using b c by (intro exI conjI)
qed

section \<open>The entries of the ratios dictionary\<close>

lemma calculate_ratios_distinct:
  assumes "map fst rs = base_keys @ p @ growth_keys @ e"
    and "p \<in> {[], [''price_performance_6m'', ''price_performance_1y''],
                  [''price_performance_6m'', ''price_performance_1y'', ''relative_strength'']}"
    and "e \<in> {[], [''pe_growth'']}"
  shows "distinct (map fst rs)" and "15 \<le> length rs" and "length rs \<le> 19"
    and "take 9 (map fst rs) = base_keys"
proof -
  have d: "distinct (base_keys @ [''price_performance_6m'', ''price_performance_1y'', ''relative_strength'']
      @ growth_keys @ [''pe_growth''])"
    by (simp add: base_keys_def growth_keys_def)
  have "length (map fst rs) = 15 + length p + length e"
    unfolding assms(1) by (simp add: base_keys_def growth_keys_def)
  then have len: "length rs = 15 + length p + length e" by simp
  from assms(2,3) have "length p \<le> 3" "length e \<le> 1" by auto
  with len show "15 \<le> length rs" "length rs \<le> 19" by simp_all
  show "take 9 (map fst rs) = base_keys" unfolding assms(1) by (simp add: base_keys_def)
  from assms(2,3) d show "distinct (map fst rs)" unfolding assms(1) by auto
qed

lemma calculate_ratios_dict:
  assumes "info sd \<noteq> [] \<or> info_text sd \<noteq> []"
    and "calculate_ratios (Some sd) t = Inr (Some rs)"
  shows "distinct (map fst rs)"
proof -
  from calculate_ratios_Inr [OF assms(1), of t] assms(2)
  have k: "if t = ''growth_momentum'' \<and> historical_data sd \<noteq> None
        then \<exists>p e. map fst rs = base_keys @ p @ growth_keys @ e
          \<and> p \<in> {[], [''price_performance_6m'', ''price_performance_1y''],
                  [''price_performance_6m'', ''price_performance_1y'', ''relative_strength'']}
          \<and> e \<in> {[], [''pe_growth'']}
        else map fst rs = base_keys"
    by auto
  show ?thesis
  proof (cases "t = ''growth_momentum'' \<and> historical_data sd \<noteq> None")
    case True
    with k obtain p e where "map fst rs = base_keys @ p @ growth_keys @ e"
      "p \<in> {[], [''price_performance_6m'', ''price_performance_1y''],
                  [''price_performance_6m'', ''price_performance_1y'', ''relative_strength'']}"
      "e \<in> {[], [''pe_growth'']}" by auto
    then show ?thesis by (rule calculate_ratios_distinct)
  next
    case False
    with k have "map fst rs = base_keys" by auto
    then show ?thesis by (simp add: base_keys_def)
  qed
qed

text \<open>
  C5, as amended: for stock data with a non-empty \<open>info\<close>, \<open>calculate_ratios\<close> returns a
  dictionary that starts with the nine base ratios. It has exactly these 9 entries unless
  the analysis type is \<open>'growth_momentum'\<close> and a price history frame is given; then it
  has between 15 and 19 entries. The value of an entry may be \<open>None\<close>.
\<close>

theorem calculate_ratios_entries:
  assumes "info sd \<noteq> [] \<or> info_text sd \<noteq> []"
  shows "\<exists>rs. calculate_ratios (Some sd) t = Inr (Some rs)
    \<and> distinct (map fst rs)
    \<and> take 9 (map fst rs) = base_keys
    \<and> (if t = ''growth_momentum'' \<and> historical_data sd \<noteq> None
        then 15 \<le> length rs \<and> length rs \<le> 19
        else length rs = 9)"
proof -
  from calculate_ratios_Inr [OF assms, of t] obtain rs
    where c: "calculate_ratios (Some sd) t = Inr (Some rs)"
      and k: "if t = ''growth_momentum'' \<and> historical_data sd \<noteq> None
        then \<exists>p e. map fst rs = base_keys @ p @ growth_keys @ e
          \<and> p \<in> {[], [''price_performance_6m'', ''price_performance_1y''],
                  [''price_performance_6m'', ''price_performance_1y'', ''relative_strength'']}
          \<and> e \<in> {[], [''pe_growth'']}
        else map fst rs = base_keys"
    by (elim exE conjE) (rule that)
  have d: "distinct (map fst rs)" using assms c by (rule calculate_ratios_dict)
  show ?thesis
  proof (cases "t = ''growth_momentum'' \<and> historical_data sd \<noteq> None")
    case True
    with k obtain p e where "map fst rs = base_keys @ p @ growth_keys @ e"
      "p \<in> {[], [''price_performance_6m'', ''price_performance_1y''],
                  [''price_performance_6m'', ''price_performance_1y'', ''relative_strength'']}"
      "e \<in> {[], [''pe_growth'']}" by auto
    from calculate_ratios_distinct(2-4) [OF this] c d True show ?thesis by simp
  next
    case False
    with k have kb: "map fst rs = base_keys" by auto
    then have "length (map fst rs) = 9" by (simp add: base_keys_def)
    then have "length rs = 9" by simp
    moreover have "length base_keys = 9" by (simp add: base_keys_def)
    ultimately show ?thesis using kb c d False by auto
  qed
qed

theorem calculate_ratios_entries_counterexample:
  "(case calculate_ratios
      (Some \<lparr>stock_data.ticker = ''X'',
             info = [(''trailingPE'', Some (Fin 12)), (''earningsGrowth'', Some (lit (3 / 10)))],
             info_text = [], income_stmt = None, balance_sheet = None, cash_flow = None,
             historical_data = Some [Fin 100, Fin 110, Fin 120],
             market_data = Some [Fin 10, Fin 11], current_price = None\<rparr>)
      ''growth_momentum'' of
      Inr (Some rs) \<Rightarrow> map fst rs | _ \<Rightarrow> [])
   = [''pe_ratio'', ''pb_ratio'', ''ps_ratio'', ''debt_to_equity'', ''roe'', ''current_ratio'',
      ''dividend_yield'', ''profit_margin'', ''peg_ratio'', ''price_performance_6m'',
      ''price_performance_1y'', ''relative_strength'', ''revenue_growth'', ''earnings_growth'',
      ''eps_growth'', ''gross_margin'', ''operating_margin'', ''analyst_recommendation'',
      ''pe_growth'']
   \<and> calculate_ratios
      (Some \<lparr>stock_data.ticker = ''X'', info = [], info_text = [(''longName'', ''X Corp'')],
             income_stmt = None, balance_sheet = None, cash_flow = None,
             historical_data = None, market_data = None, current_price = None\<rparr>)
      ''value''
   = Inr (Some [(''pe_ratio'', None), (''pb_ratio'', None), (''ps_ratio'', None),
                (''debt_to_equity'', None), (''roe'', None), (''current_ratio'', None),
                (''dividend_yield'', Some (Fin 0)), (''profit_margin'', None),
                (''peg_ratio'', None)])"
  by code_simp

theorem calculate_ratios_entries_witness:
  "(\<exists>rs. calculate_ratios
      (Some \<lparr>stock_data.ticker = ''X'',
             info = [(''trailingPE'', Some (Fin 12))],
             info_text = [], income_stmt = None, balance_sheet = None, cash_flow = None,
             historical_data = Some [Fin 100, Fin 110, Fin 120],
             market_data = None, current_price = None\<rparr>)
      ''growth_momentum'' = Inr (Some rs)
      \<and> distinct (map fst rs) \<and> 15 \<le> length rs \<and> length rs \<le> 19)
   \<and> (\<exists>rs. calculate_ratios
      (Some \<lparr>stock_data.ticker = ''X'',
             info = [(''trailingPE'', Some (Fin 12))],
             info_text = [], income_stmt = None, balance_sheet = None, cash_flow = None,
             historical_data = Some [Fin 100, Fin 110, Fin 120],
             market_data = None, current_price = None\<rparr>)
      ''value'' = Inr (Some rs)
      \<and> distinct (map fst rs) \<and> length rs = 9)"
  using
    calculate_ratios_entries [of "\<lparr>stock_data.ticker = ''X'',
             info = [(''trailingPE'', Some (Fin 12))],
             info_text = [], income_stmt = None, balance_sheet = None, cash_flow = None,
             historical_data = Some [Fin 100, Fin 110, Fin 120],
             market_data = None, current_price = None\<rparr>" "''growth_momentum''"]
    calculate_ratios_entries [of "\<lparr>stock_data.ticker = ''X'',
             info = [(''trailingPE'', Some (Fin 12))],
             info_text = [], income_stmt = None, balance_sheet = None, cash_flow = None,
             historical_data = Some [Fin 100, Fin 110, Fin 120],
             market_data = None, current_price = None\<rparr>" "''value''"]
  by auto

section \<open>Missing dividends and zero debt\<close>


lemma ratings_of_value: "(k, r) \<in> set (ratings_of c rs) \<Longrightarrow> \<exists>v. (k, Some v) \<in> set rs"
  by (induction rs) (fastforce split: option.splits if_splits)+

lemma classify_stock_None_unrated:
  assumes "distinct (map fst rs)" and "map_of rs name = Some None"
  shows "\<exists>label details. classify_stock (Some rs) t = Inr (label, details)
    \<and> map_of details name = None"
proof -
  obtain label details where c: "classify_stock (Some rs) t = Inr (label, details)"
    using classify_stock_total by blast
  have d: "details = ratings_of (criteria_of t) rs \<or> details = []"
    using c rate_ratios_details [OF assms(1), of "criteria_of t"]
    by (auto simp: classify_stock_Some split: if_splits)
  have "name \<notin> fst ` set (ratings_of (criteria_of t) rs)"
  proof
    assume "name \<in> fst ` set (ratings_of (criteria_of t) rs)"
    then obtain r where "(name, r) \<in> set (ratings_of (criteria_of t) rs)" by auto
    then obtain v where "(name, Some v) \<in> set rs" using ratings_of_value by blast
    then have "map_of rs name = Some (Some v)" using assms(1) by simp
    with assms(2) show False by simp
  qed
  then have "map_of (ratings_of (criteria_of t) rs) name = None"
    by (simp add: map_of_eq_None_iff)
  with d c show ?thesis by auto
qed

lemma base_ratios_values:
  assumes "base_ratios i = Inr b"
  shows "map_of b ''dividend_yield'' = Some (get_or i ''dividendYield'' (Some (Fin 0)))"
    and "map_of b ''pe_ratio'' = Some (get_or i ''trailingPE'' (get_or i ''forwardPE'' None))"
    and "map_of b ''pb_ratio'' = Some (get_or i ''priceToBook'' None)"
    and "map_of b ''ps_ratio'' = Some (get_or i ''priceToSalesTrailing12Months'' None)"
    and "map_of b ''roe'' = Some (get_or i ''returnOnEquity'' None)"
    and "map_of b ''current_ratio'' = Some (get_or i ''currentRatio'' None)"
    and "map_of b ''profit_margin'' = Some (get_or i ''profitMargins'' None)"
    and "map_of b ''peg_ratio'' = Some (get_or i ''pegRatio'' None)"
    and "(map_of b ''debt_to_equity'' = Some None)
         = (get_or i ''debtToEquity'' None = None \<or> get_or i ''debtToEquity'' None = Some (Fin 0))"
    and "map_of b ''debt_to_equity'' \<noteq> None"
  using base_ratios_Inr [of i] assms by auto




text \<open>
  C10: when \<open>debtToEquity\<close> is missing, \<open>None\<close> or 0, \<open>calculate_ratios\<close> sets
  \<open>debt_to_equity\<close> to \<open>None\<close>, so the ratio gets no rating under either analysis type,
  though a ratio of 0.0 would be rated \<open>great\<close> in value analysis.
\<close>

theorem zero_debt_to_equity_unrated:
  assumes "info sd \<noteq> [] \<or> info_text sd \<noteq> []"
    and "map_of (info sd) ''debtToEquity'' \<in> {None, Some None, Some (Some (Fin 0))}"
  shows "\<exists>rs label details. calculate_ratios (Some sd) t = Inr (Some rs)
    \<and> map_of rs ''debt_to_equity'' = Some None
    \<and> classify_stock (Some rs) t' = Inr (label, details)
    \<and> map_of details ''debt_to_equity'' = None
    \<and> classify_stock (Some [(''debt_to_equity'', Some (Fin 0))]) ''value''
        = Inr (''GREAT BUY'', [(''debt_to_equity'', Great)])"
proof -
  from calculate_ratios_Inr [OF assms(1), of t] obtain b rs
    where b: "base_ratios (info sd) = Inr b"
      and c: "calculate_ratios (Some sd) t = Inr (Some rs)"
      and v: "\<forall>k. k \<in> set base_keys \<and> k \<noteq> ''current_ratio'' \<longrightarrow> map_of rs k = map_of b k"
    by (elim exE conjE) (rule that)
  from assms(2) have "get_or (info sd) ''debtToEquity'' None = None
      \<or> get_or (info sd) ''debtToEquity'' None = Some (Fin 0)"
    by (auto simp: get_or_def)
  then have "map_of b ''debt_to_equity'' = Some None" using base_ratios_values(9) [OF b] by simp
  moreover have "map_of rs ''debt_to_equity'' = map_of b ''debt_to_equity''"
    using v by (simp add: base_keys_def)
  ultimately have de: "map_of rs ''debt_to_equity'' = Some None" by simp
  have d: "distinct (map fst rs)" using assms(1) c by (rule calculate_ratios_dict)
  from classify_stock_None_unrated [OF d de, of t'] obtain label details
    where cl: "classify_stock (Some rs) t' = Inr (label, details)"
      and un: "map_of details ''debt_to_equity'' = None"
    by blast
  have g: "classify_stock (Some [(''debt_to_equity'', Some (Fin 0))]) ''value''
        = Inr (''GREAT BUY'', [(''debt_to_equity'', Great)])"
    by code_simp
  from c de cl un g show ?thesis by (intro exI conjI)
qed

theorem zero_debt_to_equity_unrated_witness:
  "\<exists>rs label details.
     calculate_ratios
       (Some \<lparr>stock_data.ticker = ''X'',
              info = [(''trailingPE'', Some (Fin 12)), (''debtToEquity'', Some (Fin 0))],
              info_text = [], income_stmt = None, balance_sheet = None, cash_flow = None,
              historical_data = None, market_data = None, current_price = None\<rparr>)
       ''value'' = Inr (Some rs)
     \<and> map_of rs ''debt_to_equity'' = Some None
     \<and> classify_stock (Some rs) ''value'' = Inr (label, details)
     \<and> map_of details ''debt_to_equity'' = None"
  using zero_debt_to_equity_unrated
    [of "\<lparr>stock_data.ticker = ''X'',
              info = [(''trailingPE'', Some (Fin 12)), (''debtToEquity'', Some (Fin 0))],
              info_text = [], income_stmt = None, balance_sheet = None, cash_flow = None,
              historical_data = None, market_data = None, current_price = None\<rparr>"
         "''value''" "''value''"]
  by simp blast

section \<open>Explanations\<close>

lemma described_value: "described VALUE_CRITERIA VALUE_DESCRIPTIONS"
  by code_simp

lemma described_growth: "described GROWTH_MOMENTUM_CRITERIA GROWTH_MOMENTUM_DESCRIPTIONS"
  by code_simp

lemma describedD:
  assumes "described c d" and "map_of c name = Some rc"
  shows "\<exists>ratio_info nm interp lo hi. map_of d name = Some ratio_info
    \<and> map_of ratio_info ''name'' = Some nm
    \<and> map_of ratio_info ''interpretation'' = Some interp
    \<and> map_of rc Great = Some (lo, hi)"
proof -
  from assms(2) have "(name, rc) \<in> set c" by (rule map_of_SomeD)
  with assms(1) have "case map_of d name of
          None \<Rightarrow> False
        | Some ratio_info \<Rightarrow>
            map_of ratio_info ''name'' \<noteq> None \<and> map_of ratio_info ''interpretation'' \<noteq> None
            \<and> map_of rc Great \<noteq> None"
    unfolding described_def list_all_iff by blast
  then show ?thesis by (auto split: option.splits)
qed

lemma ideal_range_Inr: "map_of rc Great = Some (lo, hi) \<Longrightarrow> \<exists>s. ideal_range fmt rc = Inr s"
  by (simp add: ideal_range_def lookup_def bind_err_def)

lemma get_ratio_explanation_Inr:
  assumes "map_of (criteria_of t) name = Some rc"
  shows "\<exists>e. get_ratio_explanation fmt name (Some v) r t = Inr e"
proof -
  let ?d = "if t = ''value'' then VALUE_DESCRIPTIONS else GROWTH_MOMENTUM_DESCRIPTIONS"
  have "described (criteria_of t) ?d"
    using described_value described_growth by (simp add: criteria_of_def)
  from describedD [OF this assms] obtain ratio_info nm interp lo hi
    where d: "map_of ?d name = Some ratio_info"
      and n: "map_of ratio_info ''name'' = Some nm"
      and i: "map_of ratio_info ''interpretation'' = Some interp"
      and g: "map_of rc Great = Some (lo, hi)"
    by blast
  obtain s where s: "ideal_range fmt rc = Inr s" using ideal_range_Inr [OF g] by blast
  show ?thesis
  proof (cases "t = ''value''")
    case True
    with assms have "map_of VALUE_CRITERIA name = Some rc" by (simp add: criteria_of_def)
    with True d n i s show ?thesis
      by (cases r) (simp_all add: get_ratio_explanation_def Let_def lookup_def bind_err_def)
  next
    case False
    with assms have "map_of GROWTH_MOMENTUM_CRITERIA name = Some rc" by (simp add: criteria_of_def)
    with False d n i s show ?thesis
      by (cases r) (simp_all add: get_ratio_explanation_def Let_def lookup_def bind_err_def)
  qed
qed

lemma ratings_of_in_criteria:
  "(k, r) \<in> set (ratings_of c rs) \<Longrightarrow> \<exists>rc. map_of c k = Some rc"
  by (induction rs) (fastforce split: option.splits if_splits)+

lemma classify_stock_details:
  assumes "distinct (map fst rs)" and "classify_stock (Some rs) t = Inr (label, details)"
  shows "details = ratings_of (criteria_of t) rs"
  using assms(2) rate_ratios_details [OF assms(1), of "criteria_of t"]
  by (auto simp: classify_stock_Some split: if_splits)

lemma explain_ratios_Inr:
  assumes "distinct (map fst ds)"
    and "fst ` set ds \<inter> fst ` set acc = {}"
    and "\<And>name r. (name, r) \<in> set ds \<Longrightarrow>
           \<exists>v e. map_of rs name = Some (Some v)
             \<and> get_ratio_explanation fmt name (Some v) r t = Inr e"
  shows "\<exists>new. explain_ratios fmt rs t ds acc = Inr (acc @ new)
    \<and> list_all2 (\<lambda>(name, r) (name', e). name' = name
          \<and> (\<exists>v. map_of rs name = Some (Some v)
               \<and> get_ratio_explanation fmt name (Some v) r t = Inr e)) ds new"
  using assms
proof (induction ds arbitrary: acc)
  case Nil
  then show ?case by simp
next
  case (Cons d ds)
  obtain name r where d: "d = (name, r)" by (cases d)
  from Cons.prems(3) [of name r] obtain v e
    where v: "map_of rs name = Some (Some v)"
      and e: "get_ratio_explanation fmt name (Some v) r t = Inr e"
    by (auto simp: d)
  from Cons.prems(2) have fresh: "name \<notin> fst ` set acc" by (auto simp: d)
  have step: "explain_ratios fmt rs t (d # ds) acc
      = explain_ratios fmt rs t ds (acc @ [(name, e)])"
    by (simp add: d v e bind_err_def update_fresh [OF fresh])
  have "distinct (map fst ds)" using Cons.prems(1) by simp
  moreover have "fst ` set ds \<inter> fst ` set (acc @ [(name, e)]) = {}"
    using Cons.prems(1,2) by (auto simp: d)
  moreover have "\<exists>v e. map_of rs n = Some (Some v)
             \<and> get_ratio_explanation fmt n (Some v) r' t = Inr e"
    if "(n, r') \<in> set ds" for n r'
    using Cons.prems(3) [of n r'] that by simp
  ultimately obtain new where new: "explain_ratios fmt rs t ds (acc @ [(name, e)])
       = Inr ((acc @ [(name, e)]) @ new)"
    and all: "list_all2 (\<lambda>(name, r) (name', e). name' = name
          \<and> (\<exists>v. map_of rs name = Some (Some v)
               \<and> get_ratio_explanation fmt name (Some v) r t = Inr e)) ds new"
    using Cons.IH [of "acc @ [(name, e)]"] by blast
  have "explain_ratios fmt rs t (d # ds) acc = Inr (acc @ (name, e) # new)"
    using step new by simp
  moreover have "list_all2 (\<lambda>(name, r) (name', e). name' = name
          \<and> (\<exists>v. map_of rs name = Some (Some v)
               \<and> get_ratio_explanation fmt name (Some v) r t = Inr e)) (d # ds) ((name, e) # new)"
    using all v e by (simp add: d)
  ultimately show ?case by blast
qed

section \<open>Reports are assembled\<close>

lemma generate_report_Some:
  assumes f: "fetch tkr = Some sd"
    and ne: "info sd \<noteq> [] \<or> info_text sd \<noteq> []"
  shows "\<exists>rs label details explanations.
      calculate_ratios (Some sd) atype = Inr (Some rs)
    \<and> classify_stock (Some rs) atype = Inr (label, details)
    \<and> list_all2 (\<lambda>(name, r) (name', e). name' = name
          \<and> (\<exists>v. map_of rs name = Some (Some v)
               \<and> get_ratio_explanation fmt name (Some v) r atype = Inr e)) details explanations
    \<and> generate_report fetch fmt now tkr atype = Inr (Inr
         \<lparr>ticker = tkr,
          company_name = get_or (info_text sd) ''longName'' tkr,
          current_price = stock_data.current_price sd,
          currency = get_or (info_text sd) ''currency'' ''USD'',
          timestamp = now,
          classification = label,
          ratios = rs,
          rating_details = details,
          ratio_explanations = explanations,
          analysis_type = atype\<rparr>)"
proof -
  from calculate_ratios_Inr [OF ne, of atype] obtain b rs
    where b: "base_ratios (info sd) = Inr b"
      and c: "calculate_ratios (Some sd) atype = Inr (Some rs)"
      and v: "\<forall>k. k \<in> set base_keys \<and> k \<noteq> ''current_ratio'' \<longrightarrow> map_of rs k = map_of b k"
    by (elim exE conjE) (rule that)
  have "map_of rs ''pe_ratio'' = map_of b ''pe_ratio''" using v by (simp add: base_keys_def)
  then have "map_of rs ''pe_ratio'' \<noteq> None" using base_ratios_values(2) [OF b] by simp
  then have rs: "rs \<noteq> []" by auto
  have d: "distinct (map fst rs)" using ne c by (rule calculate_ratios_dict)
  obtain label details where cl: "classify_stock (Some rs) atype = Inr (label, details)"
    using classify_stock_total by blast
  have det: "details = ratings_of (criteria_of atype) rs"
    using d cl by (rule classify_stock_details)
  have dd: "distinct (map fst details)" unfolding det using d by (rule ratings_of_distinct)
  have ex: "\<exists>v e. map_of rs name = Some (Some v)
             \<and> get_ratio_explanation fmt name (Some v) r atype = Inr e"
    if "(name, r) \<in> set details" for name r
  proof -
    from that obtain v where "(name, Some v) \<in> set rs" unfolding det using ratings_of_value by blast
    with d have m: "map_of rs name = Some (Some v)" by simp
    from that obtain rc where "map_of (criteria_of atype) name = Some rc"
      unfolding det using ratings_of_in_criteria by blast
    from get_ratio_explanation_Inr [OF this, where fmt = fmt and v = v and r = r] m
    show ?thesis by blast
  qed
  have "fst ` set details \<inter> fst ` set ([] :: (string \<times> string) list) = {}" by simp
  from explain_ratios_Inr [OF dd this ex] obtain explanations
    where e: "explain_ratios fmt rs atype details [] = Inr explanations"
      and all: "list_all2 (\<lambda>(name, r) (name', e). name' = name
          \<and> (\<exists>v. map_of rs name = Some (Some v)
               \<and> get_ratio_explanation fmt name (Some v) r atype = Inr e)) details explanations"
    by auto
  have "generate_report fetch fmt now tkr atype = Inr (Inr
         \<lparr>ticker = tkr,
          company_name = get_or (info_text sd) ''longName'' tkr,
          current_price = stock_data.current_price sd,
          currency = get_or (info_text sd) ''currency'' ''USD'',
          timestamp = now,
          classification = label,
          ratios = rs,
          rating_details = details,
          ratio_explanations = explanations,
          analysis_type = atype\<rparr>)"
    using f c rs cl e by (simp add: generate_report_def bind_err_def)
  with c cl all show ?thesis by (intro exI conjI)
qed

text \<open>
  C6: \<open>generate_report\<close> never raises. It returns an error string exactly when the provider
  gives no stock data or \<open>calculate_ratios\<close> gives no ratios (it never gives an empty
  dictionary); otherwise it returns a report with the ticker, the label and the rating
  details of \<open>classify_stock\<close>, the calculated ratios, and one explanation for each rated
  ratio, in the order of the ratings: the text of \<open>get_ratio_explanation\<close> for the ratio's
  value, which is not \<open>None\<close>.
\<close>

theorem generate_report_result:
  "\<exists>res. generate_report fetch fmt now tkr atype = Inr res
    \<and> isl res = (fetch tkr = None \<or> calculate_ratios (fetch tkr) atype = Inr None)
    \<and> calculate_ratios (fetch tkr) atype \<noteq> Inr (Some [])
    \<and> (case res of
          Inl msg \<Rightarrow>
            msg = (if fetch tkr = None then ''Could not retrieve data for '' @ tkr
                   else ''Could not calculate ratios for '' @ tkr)
        | Inr report \<Rightarrow>
            (\<exists>rs label details.
                calculate_ratios (fetch tkr) atype = Inr (Some rs)
              \<and> classify_stock (Some rs) atype = Inr (label, details)
              \<and> ticker report = tkr
              \<and> classification report = label
              \<and> ratios report = rs
              \<and> rating_details report = details
              \<and> analysis_type report = atype
              \<and> list_all2 (\<lambda>(name, r) (name', e). name' = name
                    \<and> (\<exists>v. map_of rs name = Some (Some v)
                         \<and> get_ratio_explanation fmt name (Some v) r atype = Inr e))
                    details (ratio_explanations report)))"
proof (cases "fetch tkr")
  case None
  then show ?thesis by (simp add: generate_report_def calculate_ratios_def)
next
  case (Some sd)
  show ?thesis
  proof (cases "info sd = [] \<and> info_text sd = []")
    case True
    then show ?thesis using Some by (simp add: generate_report_def calculate_ratios_def bind_err_def)
  next
    case False
    then have ne: "info sd \<noteq> [] \<or> info_text sd \<noteq> []" by blast
    from generate_report_Some [where fetch = fetch and tkr = tkr and atype = atype and fmt = fmt
        and now = now, OF Some ne]
    obtain rs label details explanations
      where c: "calculate_ratios (Some sd) atype = Inr (Some rs)"
        and cl: "classify_stock (Some rs) atype = Inr (label, details)"
        and all: "list_all2 (\<lambda>(name, r) (name', e). name' = name
          \<and> (\<exists>v. map_of rs name = Some (Some v)
               \<and> get_ratio_explanation fmt name (Some v) r atype = Inr e)) details explanations"
        and g: "generate_report fetch fmt now tkr atype = Inr (Inr
         \<lparr>ticker = tkr,
          company_name = get_or (info_text sd) ''longName'' tkr,
          current_price = stock_data.current_price sd,
          currency = get_or (info_text sd) ''currency'' ''USD'',
          timestamp = now,
          classification = label,
          ratios = rs,
          rating_details = details,
          ratio_explanations = explanations,
          analysis_type = atype\<rparr>)"
      by (elim exE conjE) (rule that)
    from calculate_ratios_Inr [OF ne, of atype] c obtain b
      where b: "base_ratios (info sd) = Inr b"
        and v: "\<forall>k. k \<in> set base_keys \<and> k \<noteq> ''current_ratio'' \<longrightarrow> map_of rs k = map_of b k"
      by auto
    have "map_of rs ''pe_ratio'' = map_of b ''pe_ratio''" using v by (simp add: base_keys_def)
    then have "map_of rs ''pe_ratio'' \<noteq> None" using base_ratios_values(2) [OF b] by simp
    then have rs: "rs \<noteq> []" by auto
    show ?thesis unfolding Some g using c cl all rs by simp
  qed
qed

theorem generate_report_result_witness:
  "generate_report
     (\<lambda>t. if t = ''X'' then
        Some \<lparr>stock_data.ticker = ''X'', info = [(''trailingPE'', Some (Fin 12))],
              info_text = [], income_stmt = None, balance_sheet = None, cash_flow = None,
              historical_data = None, market_data = None, current_price = None\<rparr>
      else None)
     \<lparr>fmt2f = (\<lambda>x. ''#''), fstr = (\<lambda>x. ''#'')\<rparr> ''now'' ''Y'' ''value''
     = Inr (Inl ''Could not retrieve data for Y'')
   \<and> (\<exists>report. generate_report
     (\<lambda>t. if t = ''X'' then
        Some \<lparr>stock_data.ticker = ''X'', info = [(''trailingPE'', Some (Fin 12))],
              info_text = [], income_stmt = None, balance_sheet = None, cash_flow = None,
              historical_data = None, market_data = None, current_price = None\<rparr>
      else None)
     \<lparr>fmt2f = (\<lambda>x. ''#''), fstr = (\<lambda>x. ''#'')\<rparr> ''now'' ''X'' ''value''
     = Inr (Inr report)
     \<and> ticker report = ''X''
     \<and> rating_details report = [(''pe_ratio'', Great), (''dividend_yield'', No_buy)]
     \<and> map fst (ratio_explanations report) = [''pe_ratio'', ''dividend_yield''])"
proof -
  let ?fetch = "\<lambda>t. if t = ''X'' then
        Some \<lparr>stock_data.ticker = ''X'', info = [(''trailingPE'', Some (Fin 12))],
              info_text = [], income_stmt = None, balance_sheet = None, cash_flow = None,
              historical_data = None, market_data = None, current_price = None\<rparr>
      else None"
  let ?fmt = "\<lparr>fmt2f = (\<lambda>x. ''#''), fstr = (\<lambda>x. ''#'')\<rparr>"
  have c: "calculate_ratios (?fetch ''X'') ''value''
      = Inr (Some [(''pe_ratio'', Some (Fin 12)), (''pb_ratio'', None), (''ps_ratio'', None),
                (''debt_to_equity'', None), (''roe'', None), (''current_ratio'', None),
                (''dividend_yield'', Some (Fin 0)), (''profit_margin'', None),
                (''peg_ratio'', None)])"
    by code_simp
  have cl: "classify_stock (Some [(''pe_ratio'', Some (Fin 12)), (''pb_ratio'', None), (''ps_ratio'', None),
                (''debt_to_equity'', None), (''roe'', None), (''current_ratio'', None),
                (''dividend_yield'', Some (Fin 0)), (''profit_margin'', None),
                (''peg_ratio'', None)]) ''value''
      = Inr (''NO BUY'', [(''pe_ratio'', Great), (''dividend_yield'', No_buy)])"
    by code_simp
  from generate_report_result [of ?fetch ?fmt "''now''" "''Y''" "''value''"]
  obtain resy where ry: "generate_report ?fetch ?fmt ''now'' ''Y'' ''value'' = Inr resy"
    and iy: "isl resy = (?fetch ''Y'' = None \<or> calculate_ratios (?fetch ''Y'') ''value'' = Inr None)"
    and ny: "calculate_ratios (?fetch ''Y'') ''value'' \<noteq> Inr (Some [])"
    and ky: "case resy of
          Inl msg \<Rightarrow>
            msg = (if ?fetch ''Y'' = None then ''Could not retrieve data for '' @ ''Y''
                   else ''Could not calculate ratios for '' @ ''Y'')
        | Inr report \<Rightarrow>
            (\<exists>rs label details.
                calculate_ratios (?fetch ''Y'') ''value'' = Inr (Some rs)
              \<and> classify_stock (Some rs) ''value'' = Inr (label, details)
              \<and> ticker report = ''Y''
              \<and> classification report = label
              \<and> ratios report = rs
              \<and> rating_details report = details
              \<and> analysis_type report = ''value''
              \<and> list_all2 (\<lambda>(name, r) (name', e). name' = name
                    \<and> (\<exists>v. map_of rs name = Some (Some v)
                         \<and> get_ratio_explanation ?fmt name (Some v) r ''value'' = Inr e))
                    details (ratio_explanations report))"
    by (elim exE conjE) (rule that)
  from iy have "isl resy" by simp
  then obtain msg where "resy = Inl msg" by (cases resy) auto
  with ky ry have y: "generate_report ?fetch ?fmt ''now'' ''Y'' ''value''
     = Inr (Inl ''Could not retrieve data for Y'')"
    by simp
  from generate_report_result [of ?fetch ?fmt "''now''" "''X''" "''value''"]
  obtain res where r: "generate_report ?fetch ?fmt ''now'' ''X'' ''value'' = Inr res"
    and i: "isl res = (?fetch ''X'' = None \<or> calculate_ratios (?fetch ''X'') ''value'' = Inr None)"
    and n: "calculate_ratios (?fetch ''X'') ''value'' \<noteq> Inr (Some [])"
    and k: "case res of
          Inl msg \<Rightarrow>
            msg = (if ?fetch ''X'' = None then ''Could not retrieve data for '' @ ''X''
                   else ''Could not calculate ratios for '' @ ''X'')
        | Inr report \<Rightarrow>
            (\<exists>rs label details.
                calculate_ratios (?fetch ''X'') ''value'' = Inr (Some rs)
              \<and> classify_stock (Some rs) ''value'' = Inr (label, details)
              \<and> ticker report = ''X''
              \<and> classification report = label
              \<and> ratios report = rs
              \<and> rating_details report = details
              \<and> analysis_type report = ''value''
              \<and> list_all2 (\<lambda>(name, r) (name', e). name' = name
                    \<and> (\<exists>v. map_of rs name = Some (Some v)
                         \<and> get_ratio_explanation ?fmt name (Some v) r ''value'' = Inr e))
                    details (ratio_explanations report))"
    by (elim exE conjE) (rule that)
  from i c have "\<not> isl res" by simp
  then obtain report where res: "res = Inr report" by (cases res) auto
  from k [unfolded res] c cl have t: "ticker report = ''X''"
    and d: "rating_details report = [(''pe_ratio'', Great), (''dividend_yield'', No_buy)]"
    and l: "list_all2 (\<lambda>(name, r) (name', e). name' = name)
        [(''pe_ratio'', Great), (''dividend_yield'', No_buy)] (ratio_explanations report)"
    by (auto elim: list_all2_mono)
  from l have "map fst (ratio_explanations report) = [''pe_ratio'', ''dividend_yield'']"
    by (auto simp: list_all2_Cons1)
  with y r res t d show ?thesis by simp
qed

end
